theory Spec2Isabelle
  imports Main
begin

section \<open>Python values, errors and dictionaries\<close>

text \<open>
  The objects of \<^verbatim>\<open>uhttp.py\<close> are dynamically typed, so the model has one type of
  Python values. Text (\<^verbatim>\<open>str\<close>) is represented by its UTF-8 encoding and byte strings
  (\<^verbatim>\<open>bytes\<close>) by their bytes, both as \<^typ>\<open>string\<close>; \<^verbatim>\<open>str.encode()\<close> is then the
  identity. A \<^verbatim>\<open>PyObject\<close> is an instance of a class that none of the \<^verbatim>\<open>isinstance\<close>
  tests of the module recognises and that defines none of \<^verbatim>\<open>__bool__\<close>,
  \<^verbatim>\<open>__len__\<close> and \<^verbatim>\<open>__getitem__\<close> (a function, a file handle of the form parser).
\<close>

datatype pyval =
    PyNone
  | PyBool bool
  | PyInt int
  | PyStr string
  | PyBytes string
  | PyList "pyval list"
  | PyDict "(string \<times> pyval) list"
  | PyObject string

text \<open>An exception that is not a \<^verbatim>\<open>Response\<close>: its class name and its message.\<close>

datatype pyerr = PyErr string string

fun err_class :: "pyerr \<Rightarrow> string" where
  "err_class (PyErr c m) = c"

text \<open>
  A \<^verbatim>\<open>dict\<close> keeps its keys in insertion order: an association list with distinct
  keys. Storing under a present key keeps the key's position, storing under a new key
  appends it.
\<close>

primrec dict_set :: "'k \<Rightarrow> 'v \<Rightarrow> ('k \<times> 'v) list \<Rightarrow> ('k \<times> 'v) list" where
  "dict_set k v [] = [(k, v)]"
| "dict_set k v (p # ps) = (if fst p = k then (k, v) # ps else p # dict_set k v ps)"

definition dict_del :: "'k \<Rightarrow> ('k \<times> 'v) list \<Rightarrow> ('k \<times> 'v) list" where
  "dict_del k d = filter (\<lambda>p. fst p \<noteq> k) d"

definition dict_setdefault :: "'k \<Rightarrow> 'v \<Rightarrow> ('k \<times> 'v) list \<Rightarrow> 'v \<times> ('k \<times> 'v) list" where
  "dict_setdefault k v d = (case map_of d k of None \<Rightarrow> (v, dict_set k v d) | Some u \<Rightarrow> (u, d))"

text \<open>A dict display or comprehension: the items are stored one after the other.\<close>

definition dict_of :: "('k \<times> 'v) list \<Rightarrow> ('k \<times> 'v) list" where
  "dict_of items = fold (\<lambda>(k, v) d. dict_set k v d) items []"

text \<open>\<^verbatim>\<open>xs[-1]\<close> raises \<^verbatim>\<open>IndexError\<close> on the empty list.\<close>

definition py_last :: "'a list \<Rightarrow> pyerr + 'a" where
  "py_last xs = (case xs of [] \<Rightarrow> Inl (PyErr ''IndexError'' ''list index out of range'')
                 | _ \<Rightarrow> Inr (last xs))"

text \<open>\<^verbatim>\<open>str.lower()\<close> on the ASCII letters; other bytes are kept.\<close>

definition lower_char :: "char \<Rightarrow> char" where
  "lower_char c =
     (if (65::nat) \<le> of_char c \<and> of_char c \<le> (90::nat) then char_of (of_char c + (32::nat)) else c)"

definition lower :: "string \<Rightarrow> string" where
  "lower s = map lower_char s"

section \<open>MultiDict and Headers\<close>

text \<open>
  \<^verbatim>\<open>class MultiDict(dict)\<close>: the underlying dict maps a key to the list of its values.
\<close>

type_synonym multidict = "(string \<times> pyval list) list"

text \<open>
  The attributes an instance of \<^verbatim>\<open>MultiDict\<close> has: the methods of the class body
  followed by the public methods of \<^verbatim>\<open>dict\<close> that it does not override. \<^verbatim>\<open>Headers\<close>
  overrides some of them and adds none.
\<close>

definition MultiDict_attributes :: "string list" where
  "MultiDict_attributes =
     [''__init__'', ''__getitem__'', ''__setitem__'', ''_get'', ''get'', ''_items'', ''items'',
      ''_pop'', ''pop'', ''_setdefault'', ''setdefault'', ''_values'', ''values'', ''_update'',
      ''update'',
      ''clear'', ''copy'', ''fromkeys'', ''keys'', ''popitem'']"

text \<open>The argument \<^verbatim>\<open>mapping\<close> of the two constructors, by the \<^verbatim>\<open>isinstance\<close> test it passes.\<close>

datatype mapping_arg =
    ArgNone
  | ArgMultiDict multidict
  | ArgDict "(string \<times> pyval) list"
  | ArgSeq "(string \<times> pyval) list"
  | ArgOther

definition MultiDict__items :: "multidict \<Rightarrow> (string \<times> pyval list) list" where
  "MultiDict__items m = m"

definition MultiDict__setdefault :: "multidict \<Rightarrow> string \<Rightarrow> pyval list \<Rightarrow> pyval list \<times> multidict" where
  "MultiDict__setdefault m key dflt = dict_setdefault key dflt m"

text \<open>\<^verbatim>\<open>self._setdefault(key, []).append(value)\<close>\<close>

definition setdefault_append :: "multidict \<Rightarrow> string \<Rightarrow> pyval \<Rightarrow> multidict" where
  "setdefault_append m key v =
     (let (vs, m') = MultiDict__setdefault m key [] in dict_set key (vs @ [v]) m')"

definition MultiDict_init :: "mapping_arg \<Rightarrow> pyerr + multidict" where
  "MultiDict_init mapping =
     (case mapping of
        ArgNone \<Rightarrow> Inr []
      | ArgMultiDict m \<Rightarrow>
          (if ''itemslist'' \<in> set MultiDict_attributes
           then Inr (dict_of (map (\<lambda>(k, v). (k, v)) m))
           else Inl (PyErr ''AttributeError'' ''itemslist''))
      | ArgDict d \<Rightarrow>
          Inr (dict_of (map (\<lambda>(k, v). (k, case v of PyList l \<Rightarrow> l | _ \<Rightarrow> [v])) d))
      | ArgSeq ps \<Rightarrow> Inr (fold (\<lambda>(key, v) m. setdefault_append m key v) ps [])
      | ArgOther \<Rightarrow> Inl (PyErr ''TypeError'' ''Invalid mapping type''))"

definition MultiDict_getitem :: "multidict \<Rightarrow> string \<Rightarrow> pyerr + pyval" where
  "MultiDict_getitem m key =
     (case map_of m key of None \<Rightarrow> Inl (PyErr ''KeyError'' key) | Some vs \<Rightarrow> py_last vs)"

definition MultiDict_setitem :: "multidict \<Rightarrow> string \<Rightarrow> pyval \<Rightarrow> multidict" where
  "MultiDict_setitem m key v =
     (let (vs, m') = dict_setdefault key [] m in dict_set key (vs @ [v]) m')"

text \<open>\<^verbatim>\<open>_get(key, default=(None,))\<close>: the list of all values.\<close>

definition MultiDict__get :: "multidict \<Rightarrow> string \<Rightarrow> pyval list \<Rightarrow> pyval list" where
  "MultiDict__get m key dflt = (case map_of m key of None \<Rightarrow> dflt | Some vs \<Rightarrow> vs)"

definition MultiDict__get_default :: "pyval list" where
  "MultiDict__get_default = [PyNone]"

text \<open>\<^verbatim>\<open>get(key, default=None)\<close>: the last value.\<close>

definition MultiDict_get :: "multidict \<Rightarrow> string \<Rightarrow> pyval \<Rightarrow> pyerr + pyval" where
  "MultiDict_get m key dflt = py_last (case map_of m key of None \<Rightarrow> [dflt] | Some vs \<Rightarrow> vs)"

text \<open>
  \<^verbatim>\<open>pop(key, default=None)\<close> returns the popped object and leaves the dict changed:
  \<^verbatim>\<open>values.pop()\<close> shortens the list that the dict holds, \<^verbatim>\<open>super().pop\<close> removes the
  key and returns what was stored under it (the list) or the default.
\<close>

definition MultiDict_pop :: "multidict \<Rightarrow> string \<Rightarrow> pyval \<Rightarrow> pyval \<times> multidict" where
  "MultiDict_pop m key dflt =
     (let vs = (case map_of m key of None \<Rightarrow> [] | Some l \<Rightarrow> l) in
      if length vs > 1 then (last vs, dict_set key (butlast vs) m)
      else (case map_of m key of None \<Rightarrow> (dflt, m) | Some l \<Rightarrow> (PyList l, dict_del key m)))"

text \<open>Iterating over a MultiDict yields the keys of the underlying dict.\<close>

definition MultiDict_iter :: "multidict \<Rightarrow> string list" where
  "MultiDict_iter m = map fst m"

definition MultiDict_setdefault :: "multidict \<Rightarrow> string \<Rightarrow> pyval \<Rightarrow> (pyerr + pyval) \<times> multidict" where
  "MultiDict_setdefault m key dflt =
     (let (vs, m') = dict_setdefault key [dflt] m in (py_last vs, m'))"

text \<open>\<^verbatim>\<open>_update\<close> with one dict argument: \<^verbatim>\<open>dict.update\<close>.\<close>

definition MultiDict__update :: "multidict \<Rightarrow> (string \<times> pyval list) list \<Rightarrow> multidict" where
  "MultiDict__update m d = fold (\<lambda>(k, v) acc. dict_set k v acc) d m"

text \<open>
  \<^verbatim>\<open>x[-1]\<close> on an object: the last element of a list, the last character of a text, the
  last byte of a byte string; a dict with text keys has no key \<^verbatim>\<open>-1\<close>, and the other
  objects are not subscriptable.
\<close>

definition last_char :: "string \<Rightarrow> string" where
  "last_char s =
     (let r = rev s;
          k = length (takeWhile (\<lambda>c. (128::nat) \<le> of_char c \<and> of_char c < (192::nat)) r)
      in rev (take (Suc k) r))"

definition py_item_last :: "pyval \<Rightarrow> pyerr + pyval" where
  "py_item_last x =
     (case x of
        PyList l \<Rightarrow> py_last l
      | PyStr s \<Rightarrow>
          (if s = [] then Inl (PyErr ''IndexError'' ''string index out of range'')
           else Inr (PyStr (last_char s)))
      | PyBytes b \<Rightarrow>
          (if b = [] then Inl (PyErr ''IndexError'' ''index out of range'')
           else Inr (PyInt (of_char (last b))))
      | PyDict d \<Rightarrow> Inl (PyErr ''KeyError'' ''-1'')
      | _ \<Rightarrow> Inl (PyErr ''TypeError'' ''object is not subscriptable''))"

text \<open>
  \<^verbatim>\<open>class Headers(MultiDict)\<close>: every key is lowercased on the way in. In the methods of
  \<^verbatim>\<open>Headers\<close>, \<^verbatim>\<open>super()\<close> is \<^verbatim>\<open>MultiDict\<close>, so each of them goes through the method of
  \<^verbatim>\<open>MultiDict\<close> of the same plain name: \<^verbatim>\<open>_setdefault\<close> through \<^verbatim>\<open>MultiDict.setdefault\<close>, which
  stores the default wrapped in a list and returns the last element of what the dict
  holds; \<^verbatim>\<open>get\<close> and \<^verbatim>\<open>__getitem__\<close> through \<^verbatim>\<open>MultiDict.get\<close> and
  \<^verbatim>\<open>MultiDict.__getitem__\<close>, which take the last element, after which they take the last
  element once more.
\<close>

definition Headers__setdefault ::
  "multidict \<Rightarrow> string \<Rightarrow> pyval list \<Rightarrow> (pyerr + pyval) \<times> multidict" where
  "Headers__setdefault m key dflt = MultiDict_setdefault m (lower key) (PyList dflt)"

text \<open>
  \<^verbatim>\<open>self._setdefault(key, []).append(value)\<close> in \<^verbatim>\<open>Headers.__init__\<close>: the object returned
  is the last element of the list that the dict holds under the key, and \<^verbatim>\<open>append\<close>
  changes that object, a list, in place.
\<close>

definition Headers_append :: "multidict \<Rightarrow> string \<Rightarrow> pyval \<Rightarrow> pyerr + multidict" where
  "Headers_append m key v =
     (case Headers__setdefault m key [] of
        (Inl e, m') \<Rightarrow> Inl e
      | (Inr (PyList l), m') \<Rightarrow>
          (case map_of m' (lower key) of
             None \<Rightarrow> Inl (PyErr ''KeyError'' (lower key))
           | Some vs \<Rightarrow> Inr (dict_set (lower key) (butlast vs @ [PyList (l @ [v])]) m'))
      | (Inr x, m') \<Rightarrow> Inl (PyErr ''AttributeError'' ''append''))"

fun Headers_extend :: "(string \<times> pyval) list \<Rightarrow> multidict \<Rightarrow> pyerr + multidict" where
  "Headers_extend [] m = Inr m"
| "Headers_extend ((key, v) # ps) m =
     (case Headers_append m key v of Inl e \<Rightarrow> Inl e | Inr m' \<Rightarrow> Headers_extend ps m')"

definition Headers_init :: "mapping_arg \<Rightarrow> pyerr + multidict" where
  "Headers_init mapping =
     (case mapping of
        ArgNone \<Rightarrow> MultiDict_init ArgNone
      | ArgMultiDict m \<Rightarrow>
          (if ''itemslist'' \<in> set MultiDict_attributes
           then MultiDict_init (ArgDict (dict_of (map (\<lambda>(k, v). (lower k, PyList v)) m)))
           else Inl (PyErr ''AttributeError'' ''itemslist''))
      | ArgDict d \<Rightarrow>
          MultiDict_init (ArgDict (dict_of
            (map (\<lambda>(k, v). (lower k, PyList (case v of PyList l \<Rightarrow> l | _ \<Rightarrow> [v]))) d)))
      | ArgSeq ps \<Rightarrow>
          (case MultiDict_init ArgNone of
             Inl e \<Rightarrow> Inl e
           | Inr m0 \<Rightarrow> Headers_extend ps m0)
      | ArgOther \<Rightarrow> Inl (PyErr ''TypeError'' ''Invalid mapping type''))"

definition Headers_get :: "multidict \<Rightarrow> string \<Rightarrow> pyval \<Rightarrow> pyerr + pyval" where
  "Headers_get m key dflt =
     (case MultiDict_get m (lower key) (PyList [dflt]) of
        Inl e \<Rightarrow> Inl e
      | Inr x \<Rightarrow> py_item_last x)"

definition Headers_getitem :: "multidict \<Rightarrow> string \<Rightarrow> pyerr + pyval" where
  "Headers_getitem m key =
     (case MultiDict_getitem m (lower key) of
        Inl e \<Rightarrow> Inl e
      | Inr x \<Rightarrow> py_item_last x)"

text \<open>The MultiDict that a sequence of \<^verbatim>\<open>m[k] = v\<close> statements builds from the empty one.\<close>

definition MultiDict_sets :: "(string \<times> pyval) list \<Rightarrow> multidict" where
  "MultiDict_sets ops = fold (\<lambda>(k, v) m. MultiDict_setitem m k v) ops []"

text \<open>The values that the statements \<open>ops\<close> store under the key \<open>k\<close>, in their order.\<close>

definition values_for :: "string \<Rightarrow> (string \<times> pyval) list \<Rightarrow> pyval list" where
  "values_for k ops = map snd (filter (\<lambda>p. fst p = k) ops)"

section \<open>The libraries the module calls\<close>

text \<open>
  \<^verbatim>\<open>uhttp.py\<close> calls \<^verbatim>\<open>http\<close>, \<^verbatim>\<open>json\<close>, \<^verbatim>\<open>re\<close>, \<^verbatim>\<open>unicodedata\<close>, \<^verbatim>\<open>http.cookies\<close>,
  \<^verbatim>\<open>ijson\<close> and \<^verbatim>\<open>multipart\<close>. What they compute is a parameter of the model: a record
  with one field per library entry point, each returning an error where the library may
  raise. The two type parameters are the states of the incremental JSON parser and of
  the form parser.
\<close>

text \<open>A compiled pattern, by its \<^verbatim>\<open>fullmatch\<close>: the \<^verbatim>\<open>groupdict()\<close> of the match, if any.\<close>

type_synonym pattern = "string \<Rightarrow> (string \<times> pyval) list option"

text \<open>A \<^verbatim>\<open>SimpleCookie\<close>: the morsels by name, each with its output string.\<close>

type_synonym cookies = "(string \<times> string) list"

record ('jp, 'fp) libs =
  phrase :: "int \<Rightarrow> string option"
    \<comment> \<open>\<^verbatim>\<open>HTTPStatus(n).phrase\<close>; \<open>None\<close> where \<^verbatim>\<open>HTTPStatus(n)\<close> raises \<^verbatim>\<open>ValueError\<close>\<close>
  json_dumps :: "(string \<times> pyval) list \<Rightarrow> pyerr + string"
  py_str :: "pyval \<Rightarrow> string"
    \<comment> \<open>the builtin \<^verbatim>\<open>str\<close>\<close>
  re_compile :: "string \<Rightarrow> pyerr + pattern"
  normalize_NFC :: "string \<Rightarrow> string"
  cookie_load :: "pyval \<Rightarrow> cookies option"
    \<comment> \<open>\<^verbatim>\<open>SimpleCookie().load(rawdata)\<close>; \<open>None\<close> where it raises \<^verbatim>\<open>CookieError\<close>\<close>
  parse_options_header :: "pyval \<Rightarrow> pyerr + string"
    \<comment> \<open>the content type, the first component of the result\<close>
  ijson_buf_size :: nat
  ijson_start :: "'jp"
  ijson_feed :: "'jp \<Rightarrow> string \<Rightarrow> pyerr + ('jp \<times> pyval list)"
    \<comment> \<open>one more block of input: the top-level values completed by it\<close>
  ijson_close :: "'jp \<Rightarrow> pyerr + pyval list"
    \<comment> \<open>the end of the input\<close>
  create_form_parser :: "multidict \<Rightarrow> pyerr + 'fp"
  form_write :: "'fp \<Rightarrow> string \<Rightarrow> (string \<times> pyval) list \<times> (pyerr + 'fp)"
    \<comment> \<open>the \<^verbatim>\<open>form[name] = value\<close> statements that the callbacks run, and how the call ends\<close>
  form_finalize :: "'fp \<Rightarrow> (string \<times> pyval) list \<times> pyerr option"

text \<open>The members of \<^verbatim>\<open>http.HTTPStatus\<close> (CPython 3.12) with their phrases.\<close>

definition HTTPStatus_table :: "(int \<times> string) list" where
  "HTTPStatus_table =
     [(100, ''Continue''), (101, ''Switching Protocols''), (102, ''Processing''),
      (103, ''Early Hints''),
      (200, ''OK''), (201, ''Created''), (202, ''Accepted''),
      (203, ''Non-Authoritative Information''), (204, ''No Content''),
      (205, ''Reset Content''), (206, ''Partial Content''), (207, ''Multi-Status''),
      (208, ''Already Reported''), (226, ''IM Used''),
      (300, ''Multiple Choices''), (301, ''Moved Permanently''), (302, ''Found''),
      (303, ''See Other''), (304, ''Not Modified''), (305, ''Use Proxy''),
      (307, ''Temporary Redirect''), (308, ''Permanent Redirect''),
      (400, ''Bad Request''), (401, ''Unauthorized''), (402, ''Payment Required''),
      (403, ''Forbidden''), (404, ''Not Found''), (405, ''Method Not Allowed''),
      (406, ''Not Acceptable''), (407, ''Proxy Authentication Required''),
      (408, ''Request Timeout''), (409, ''Conflict''), (410, ''Gone''),
      (411, ''Length Required''), (412, ''Precondition Failed''),
      (413, ''Request Entity Too Large''), (414, ''Request-URI Too Long''),
      (415, ''Unsupported Media Type''), (416, ''Requested Range Not Satisfiable''),
      (417, ''Expectation Failed''), (418, ''I'' @ [CHR 0x27] @ ''m a Teapot''),
      (421, ''Misdirected Request''), (422, ''Unprocessable Entity''), (423, ''Locked''),
      (424, ''Failed Dependency''), (425, ''Too Early''), (426, ''Upgrade Required''),
      (428, ''Precondition Required''), (429, ''Too Many Requests''),
      (431, ''Request Header Fields Too Large''), (451, ''Unavailable For Legal Reasons''),
      (500, ''Internal Server Error''), (501, ''Not Implemented''), (502, ''Bad Gateway''),
      (503, ''Service Unavailable''), (504, ''Gateway Timeout''),
      (505, ''HTTP Version Not Supported''), (506, ''Variant Also Negotiates''),
      (507, ''Insufficient Storage''), (508, ''Loop Detected''), (510, ''Not Extended''),
      (511, ''Network Authentication Required'')]"

definition HTTPStatus_phrase :: "int \<Rightarrow> string option" where
  "HTTPStatus_phrase n = map_of HTTPStatus_table n"

section \<open>Response\<close>

record response =
  status :: int
  description :: string
  headers :: multidict
  cookies :: cookies
  body :: string

text \<open>
  \<^verbatim>\<open>Response.__init__(status, headers=None, cookies=None, body=b'')\<close>. The exception's
  \<^verbatim>\<open>str\<close> is its description.
\<close>

definition Response_init ::
  "('jp, 'fp) libs \<Rightarrow> int \<Rightarrow> mapping_arg \<Rightarrow> cookies \<Rightarrow> string \<Rightarrow> pyerr + response" where
  "Response_init L st hdrs cks bdy =
     (let descr = (case phrase L st of Some p \<Rightarrow> p | None \<Rightarrow> '''') in
      case MultiDict_init hdrs of
        Inl e \<Rightarrow> Inl e
      | Inr h0 \<Rightarrow>
          (case MultiDict_setdefault h0 ''content-type'' (PyStr ''text/html; charset=utf-8'') of
             (Inl e, h) \<Rightarrow> Inl e
           | (Inr v, h) \<Rightarrow>
               Inr \<lparr>status = st, description = descr, headers = h, cookies = cks,
                    body = (if bdy = [] \<and> 400 \<le> st \<and> st < 600 then descr else bdy)\<rparr>))"

text \<open>What a handler or a hook returns: a Python value or an instance of \<^verbatim>\<open>Response\<close>.\<close>

datatype anyval = Value pyval | Instance response

text \<open>\<^verbatim>\<open>Response.from_any\<close>. A \<^verbatim>\<open>bool\<close> is an \<^verbatim>\<open>int\<close>, so it takes the first branch.\<close>

definition from_int :: "('jp, 'fp) libs \<Rightarrow> int \<Rightarrow> pyerr + response" where
  "from_int L n =
     (case phrase L n of
        None \<Rightarrow> Inl (PyErr ''ValueError'' ''not a valid HTTPStatus'')
      | Some p \<Rightarrow> Response_init L n ArgNone [] p)"

fun from_any :: "('jp, 'fp) libs \<Rightarrow> anyval \<Rightarrow> pyerr + response" where
  "from_any L (Value (PyInt n)) = from_int L n"
| "from_any L (Value (PyBool b)) = from_int L (if b then 1 else 0)"
| "from_any L (Value (PyStr s)) = Response_init L 200 ArgNone [] s"
| "from_any L (Value (PyBytes b)) = Response_init L 200 ArgNone [] b"
| "from_any L (Value (PyDict d)) =
     (case json_dumps L d of
        Inl e \<Rightarrow> Inl e
      | Inr js \<Rightarrow>
          Response_init L 200 (ArgDict [(''content-type'', PyStr ''application/json'')]) [] js)"
| "from_any L (Instance r) = Inr r"
| "from_any L (Value PyNone) = Response_init L 204 ArgNone [] []"
| "from_any L (Value v) = Inl (PyErr ''TypeError'' [])"

text \<open>The truth value of an object, as \<^verbatim>\<open>if ret := ...\<close> tests it.\<close>

fun truthy :: "anyval \<Rightarrow> bool" where
  "truthy (Value PyNone) = False"
| "truthy (Value (PyBool b)) = b"
| "truthy (Value (PyInt n)) = (n \<noteq> 0)"
| "truthy (Value (PyStr s)) = (s \<noteq> [])"
| "truthy (Value (PyBytes b)) = (b \<noteq> [])"
| "truthy (Value (PyList l)) = (l \<noteq> [])"
| "truthy (Value (PyDict d)) = (d \<noteq> [])"
| "truthy (Value (PyObject c)) = True"
| "truthy (Instance r) = True"

section \<open>Body\<close>

text \<open>
  An \<^verbatim>\<open>http.request\<close> event of the transport. \<^verbatim>\<open>receive\<close> is modelled by the list of the
  events it still has to deliver; awaiting it when the list is empty never resumes.
\<close>

record event =
  ev_body :: string
  more_body :: bool

record body_reader =
  receive :: "event list"
  buffer :: string
  finished :: bool

definition Body_init :: "event list \<Rightarrow> body_reader" where
  "Body_init rcv = \<lparr>receive = rcv, buffer = [], finished = False\<rparr>"

text \<open>
  The loop \<^verbatim>\<open>while len(self.buffer) == 0\<close> of \<^verbatim>\<open>Body.read\<close>, on the three attributes;
  \<open>None\<close> when it awaits an event that never comes.
\<close>

fun Body_fill :: "event list \<Rightarrow> string \<Rightarrow> bool \<Rightarrow> (event list \<times> string \<times> bool) option" where
  "Body_fill [] buf fin = (if length buf = 0 then None else Some ([], buf, fin))"
| "Body_fill (e # es) buf fin =
     (if length buf = 0
      then Body_fill es (buf @ ev_body e) (if \<not> more_body e then True else fin)
      else Some (e # es, buf, fin))"

definition Body_read :: "body_reader \<Rightarrow> int \<Rightarrow> (string \<times> body_reader) option" where
  "Body_read b n =
     (if n = 0 then Some ([], b)
      else
        (case (if \<not> finished b then Body_fill (receive b) (buffer b) (finished b)
               else Some (receive b, buffer b, finished b)) of
           None \<Rightarrow> None
         | Some (rcv, buf, fin) \<Rightarrow>
             (if n > 0
              then Some (take (nat n) buf, \<lparr>receive = rcv, buffer = drop (nat n) buf, finished = fin\<rparr>)
              else Some (buf, \<lparr>receive = rcv, buffer = buf, finished = fin\<rparr>))))"

text \<open>
  Successive calls \<^verbatim>\<open>read(n)\<close>, at most \<open>k\<close> of them, until one returns the empty byte
  string: the results, or \<open>None\<close> when a call never returns.
\<close>

fun Body_reads :: "nat \<Rightarrow> body_reader \<Rightarrow> int \<Rightarrow> string list option" where
  "Body_reads 0 b n = Some []"
| "Body_reads (Suc k) b n =
     (case Body_read b n of
        None \<Rightarrow> None
      | Some (data, b') \<Rightarrow>
          (if data = [] then Some []
           else (case Body_reads k b' n of None \<Rightarrow> None | Some ds \<Rightarrow> Some (data # ds))))"

section \<open>Byte strings, UTF-8 and \<^verbatim>\<open>urllib.parse\<close>\<close>

definition is_ascii :: "char \<Rightarrow> bool" where
  "is_ascii c = ((of_char c :: nat) < 128)"

definition continuation :: "nat \<Rightarrow> bool" where
  "continuation b = (128 \<le> b \<and> b < 192)"

text \<open>
  The second byte of a three-byte and of a four-byte sequence: a continuation byte that
  makes the sequence neither overlong nor a surrogate nor larger than U+10FFFF.
\<close>

definition second_of_3 :: "nat \<Rightarrow> nat \<Rightarrow> bool" where
  "second_of_3 b0 b1 =
     (continuation b1 \<and> (if b0 = 224 then 160 \<le> b1 else if b0 = 237 then b1 < 160 else True))"

definition second_of_4 :: "nat \<Rightarrow> nat \<Rightarrow> bool" where
  "second_of_4 b0 b1 =
     (continuation b1 \<and> (if b0 = 240 then 144 \<le> b1 else if b0 = 244 then b1 < 144 else True))"

text \<open>
  The decoder of CPython at the head of a non-empty byte string: how many bytes the next
  unit takes and whether it is a well-formed character. An ill-formed unit is the longest
  prefix of a well-formed sequence, or one byte.
\<close>

fun utf8_unit :: "nat list \<Rightarrow> nat \<times> bool" where
  "utf8_unit [] = (0, True)"
| "utf8_unit (b0 # bs) =
     (if b0 < 128 then (1, True)
      else if b0 < 194 then (1, False)
      else if b0 < 224 then
        (case bs of [] \<Rightarrow> (1, False)
         | b1 # _ \<Rightarrow> if continuation b1 then (2, True) else (1, False))
      else if b0 < 240 then
        (case bs of [] \<Rightarrow> (1, False)
         | b1 # r1 \<Rightarrow>
             if \<not> second_of_3 b0 b1 then (1, False)
             else (case r1 of [] \<Rightarrow> (2, False)
                   | b2 # _ \<Rightarrow> if continuation b2 then (3, True) else (2, False)))
      else if b0 < 245 then
        (case bs of [] \<Rightarrow> (1, False)
         | b1 # r1 \<Rightarrow>
             if \<not> second_of_4 b0 b1 then (1, False)
             else (case r1 of [] \<Rightarrow> (2, False)
                   | b2 # r2 \<Rightarrow>
                       if \<not> continuation b2 then (2, False)
                       else (case r2 of [] \<Rightarrow> (3, False)
                             | b3 # _ \<Rightarrow> if continuation b3 then (4, True) else (3, False))))
      else (1, False))"

text \<open>The encoding of U+FFFD, the replacement character.\<close>

definition replacement :: string where
  "replacement = [char_of (239::nat), char_of (191::nat), char_of (189::nat)]"

text \<open>
  \<^verbatim>\<open>bytes.decode('utf-8', 'replace')\<close>, and whether \<^verbatim>\<open>bytes.decode()\<close> succeeds. The text
  that results is given by its encoding.
\<close>

fun decode_replace :: "string \<Rightarrow> string" where
  "decode_replace [] = []"
| "decode_replace (c # cs) =
     (case utf8_unit (map of_char (c # cs)) of
        (n, ok) \<Rightarrow> (if ok then take n (c # cs) else replacement) @ decode_replace (drop (n - 1) cs))"

fun utf8_valid :: "string \<Rightarrow> bool" where
  "utf8_valid [] = True"
| "utf8_valid (c # cs) =
     (case utf8_unit (map of_char (c # cs)) of
        (n, ok) \<Rightarrow> ok \<and> utf8_valid (drop (n - 1) cs))"

text \<open>\<^verbatim>\<open>s.split(sep)\<close> and \<^verbatim>\<open>s.split(sep, 1)\<close> for a separator of one character.\<close>

fun split_on :: "char \<Rightarrow> string \<Rightarrow> string list" where
  "split_on sep [] = [[]]"
| "split_on sep (c # cs) =
     (if c = sep then [] # split_on sep cs
      else (case split_on sep cs of [] \<Rightarrow> [[c]] | w # ws \<Rightarrow> (c # w) # ws))"

definition split_once :: "char \<Rightarrow> string \<Rightarrow> string list" where
  "split_once sep s =
     (if sep \<in> set s then [takeWhile (\<lambda>c. c \<noteq> sep) s, tl (dropWhile (\<lambda>c. c \<noteq> sep) s)]
      else [s])"

definition hexval :: "char \<Rightarrow> nat option" where
  "hexval c =
     (let n = (of_char c :: nat) in
      if 48 \<le> n \<and> n \<le> 57 then Some (n - 48)
      else if 65 \<le> n \<and> n \<le> 70 then Some (n - 55)
      else if 97 \<le> n \<and> n \<le> 102 then Some (n - 87)
      else None)"

text \<open>\<^verbatim>\<open>unquote_to_bytes\<close>: \<^verbatim>\<open>%XX\<close> with two hexadecimal digits becomes the byte, any other
  \<^verbatim>\<open>%\<close> stays.\<close>

fun unquote_to_bytes :: "string \<Rightarrow> string" where
  "unquote_to_bytes [] = []"
| "unquote_to_bytes [c] = [c]"
| "unquote_to_bytes [c, d] = [c, d]"
| "unquote_to_bytes (c # h1 # h2 # cs) =
     (if c = CHR ''%'' then
        (case (hexval h1, hexval h2) of
           (Some a, Some b) \<Rightarrow> char_of (16 * a + b) # unquote_to_bytes cs
         | _ \<Rightarrow> c # unquote_to_bytes (h1 # h2 # cs))
      else c # unquote_to_bytes (h1 # h2 # cs))"

text \<open>\<^verbatim>\<open>unquote\<close> of a byte string, as \<^verbatim>\<open>scope['query_string']\<close> is.\<close>

definition unquote_bytes :: "string \<Rightarrow> string" where
  "unquote_bytes s = decode_replace (unquote_to_bytes s)"

text \<open>
  The maximal runs of ASCII and of non-ASCII characters of a text, in order; the flag
  says which kind the run under construction is.
\<close>

fun runs :: "bool \<Rightarrow> string \<Rightarrow> string \<Rightarrow> (bool \<times> string) list" where
  "runs a cur [] = [(a, cur)]"
| "runs a cur (c # cs) =
     (if is_ascii c = a then runs a (cur @ [c]) cs
      else (a, cur) # runs (is_ascii c) [c] cs)"

text \<open>\<^verbatim>\<open>unquote\<close> of a text: only the ASCII runs are unquoted and decoded.\<close>

definition unquote :: "string \<Rightarrow> string" where
  "unquote s =
     (if CHR ''%'' \<notin> set s then s
      else concat (map (\<lambda>(a, r). if a then decode_replace (unquote_to_bytes r) else r)
                       (runs False [] s)))"

definition plus_to_space :: "string \<Rightarrow> string" where
  "plus_to_space s = map (\<lambda>c. if c = CHR ''+'' then CHR '' '' else c) s"

text \<open>
  \<^verbatim>\<open>parse_qsl(qs)\<close> with its default arguments: fields are separated by \<^verbatim>\<open>&\<close>; a field
  without \<^verbatim>\<open>=\<close> or with an empty value is dropped.
\<close>

definition parse_field :: "string \<Rightarrow> (string \<times> string) list" where
  "parse_field name_value =
     (if name_value = [] then []
      else
        (case split_once CHR ''='' name_value of
           [n, v] \<Rightarrow>
             (if length v \<noteq> 0 then [(unquote (plus_to_space n), unquote (plus_to_space v))]
              else [])
         | _ \<Rightarrow> []))"

definition parse_qsl :: "string \<Rightarrow> (string \<times> string) list" where
  "parse_qsl qs = concat (map parse_field (split_on CHR ''&'' qs))"

section \<open>Request, hooks and App\<close>

record request =
  "method" :: string
  path :: string
  params :: "(string \<times> pyval) list"
  args :: multidict
  req_headers :: multidict
  req_cookies :: cookies
  req_body :: string
  json :: pyval
  form :: multidict
  state :: "(string \<times> pyval) list"

text \<open>
  \<^verbatim>\<open>Request(method=, path=, args=, state=)\<close>, the call that the pipeline makes: the other
  keyword arguments keep their defaults.
\<close>

definition Request_init ::
  "string \<Rightarrow> string \<Rightarrow> mapping_arg \<Rightarrow> (string \<times> pyval) list \<Rightarrow> pyerr + request" where
  "Request_init m p a st =
     (case MultiDict_init a of
        Inl e \<Rightarrow> Inl e
      | Inr ar \<Rightarrow>
          (case Headers_init ArgNone of
             Inl e \<Rightarrow> Inl e
           | Inr h \<Rightarrow>
               (case MultiDict_init ArgNone of
                  Inl e \<Rightarrow> Inl e
                | Inr f \<Rightarrow>
                    Inr \<lparr>method = m, path = p, params = [], args = ar, req_headers = h,
                         req_cookies = [], req_body = [], json = PyDict [], form = f,
                         state = st\<rparr>)))"

text \<open>What a \<^verbatim>\<open>raise\<close> propagates: a \<^verbatim>\<open>Response\<close> or another exception.\<close>

datatype exn = RaisedResponse response | RaisedError pyerr

text \<open>
  How a stage of the pipeline ends: with a result, with an exception, or never, when it
  awaits an event that the transport does not deliver.
\<close>

datatype 'a outcome = Done 'a | Raise exn | Pending

text \<open>
  A registered function, under the name that the call log records. A before-hook or a
  route handler gets the request, may change it, and returns or raises; an after-hook
  gets the request and the response; a startup or shutdown hook gets the shared state.
  \<^verbatim>\<open>asyncfy\<close> awaits a coroutine function and runs any other one in a thread: both give
  the function's result. The lifespan branch catches \<^verbatim>\<open>Exception\<close>, so for a startup or
  shutdown hook the model tells an instance of \<^verbatim>\<open>Exception\<close> from an instance of
  \<^verbatim>\<open>BaseException\<close> that is none (\<^verbatim>\<open>SystemExit\<close>, \<^verbatim>\<open>KeyboardInterrupt\<close>, the
  \<^verbatim>\<open>CancelledError\<close> of a cancelled task). The http branch catches \<^verbatim>\<open>Response\<close> only, so
  there every other exception is alike.
\<close>

datatype raised = AnException pyerr | ABaseException pyerr

type_synonym handler = "string \<times> (request \<Rightarrow> (exn + anyval) \<times> request)"

type_synonym after_hook =
  "string \<times> (request \<Rightarrow> response \<Rightarrow> (exn + anyval) \<times> request \<times> response)"

type_synonym lifespan_hook =
  "string \<times> ((string \<times> pyval) list \<Rightarrow> raised option \<times> (string \<times> pyval) list)"

text \<open>
  A key of \<^verbatim>\<open>App._routes\<close>: the path pattern as registered, or the pattern object that
  \<^verbatim>\<open>re.compile\<close> made of it.
\<close>

datatype route_key = Uncompiled string | Compiled string pattern

fun key_source :: "route_key \<Rightarrow> string" where
  "key_source (Uncompiled s) = s"
| "key_source (Compiled s p) = s"

fun is_compiled :: "route_key \<Rightarrow> bool" where
  "is_compiled (Uncompiled s) = False"
| "is_compiled (Compiled s p) = True"

type_synonym route_table = "(route_key \<times> (string \<times> handler) list) list"

record app =
  routes :: route_table
  startup :: "lifespan_hook list"
  shutdown :: "lifespan_hook list"
  before :: "handler list"
  after :: "after_hook list"
  max_content :: int

definition App_init :: app where
  "App_init = \<lparr>routes = [], startup = [], shutdown = [], before = [], after = [],
               max_content = 1048576\<rparr>"

text \<open>
  \<^verbatim>\<open>self._routes.setdefault(path, {}).update({method: func for method in methods})\<close>:
  two keys are the same when both are strings, or both patterns, of the same source.
\<close>

fun routes_register :: "string \<Rightarrow> (string \<times> handler) list \<Rightarrow> route_table \<Rightarrow> route_table" where
  "routes_register p ms [] = [(Uncompiled p, fold (\<lambda>(k, v) d. dict_set k v d) ms [])]"
| "routes_register p ms ((key, tbl) # rs) =
     (if \<not> is_compiled key \<and> key_source key = p
      then (key, fold (\<lambda>(k, v) d. dict_set k v d) ms tbl) # rs
      else (key, tbl) # routes_register p ms rs)"

definition App_route :: "app \<Rightarrow> string \<Rightarrow> string list \<Rightarrow> handler \<Rightarrow> app" where
  "App_route a p methods func =
     a\<lparr>routes := routes_register p (map (\<lambda>m. (m, func)) methods) (routes a)\<rparr>"

definition App_before :: "app \<Rightarrow> handler \<Rightarrow> app" where
  "App_before a func = a\<lparr>before := before a @ [func]\<rparr>"

definition App_after :: "app \<Rightarrow> after_hook \<Rightarrow> app" where
  "App_after a func = a\<lparr>after := after a @ [func]\<rparr>"

definition App_startup :: "app \<Rightarrow> lifespan_hook \<Rightarrow> app" where
  "App_startup a func = a\<lparr>startup := startup a @ [func]\<rparr>"

section \<open>The lifespan branch of \<^verbatim>\<open>App.__call__\<close>\<close>

datatype message =
    StartupComplete
  | StartupFailed string
  | ShutdownComplete
  | ShutdownFailed string
  | ResponseStart int "(string \<times> string) list"
  | ResponseBody string

text \<open>\<^verbatim>\<open>f'{type(e).__name__}: {e}'\<close>\<close>

fun exc_text :: "pyerr \<Rightarrow> string" where
  "exc_text (PyErr c m) = c @ '': '' @ m"

text \<open>
  \<^verbatim>\<open>for func in hooks: await asyncfy(func, scope['state'])\<close>: what the first hook that
  raises has raised, the state as the hooks left it, and the call log.
\<close>

fun run_hooks ::
  "lifespan_hook list \<Rightarrow> (string \<times> pyval) list \<Rightarrow> string list \<Rightarrow>
     raised option \<times> (string \<times> pyval) list \<times> string list" where
  "run_hooks [] st log = (None, st, log)"
| "run_hooks (h # hs) st log =
     (case snd h st of
        (Some e, st') \<Rightarrow> (Some e, st', log @ [fst h])
      | (None, st') \<Rightarrow> run_hooks hs st' (log @ [fst h]))"

text \<open>
  \<^verbatim>\<open>{re.compile(k): v for k, v in self._routes.items()}\<close>. Compiling a pattern object
  returns it; equal sources give the same pattern object, so the later item replaces the
  value of the earlier one.
\<close>

definition compile_key :: "('jp, 'fp) libs \<Rightarrow> route_key \<Rightarrow> pyerr + route_key" where
  "compile_key L key =
     (case key of
        Compiled s p \<Rightarrow> Inr (Compiled s p)
      | Uncompiled s \<Rightarrow> (case re_compile L s of Inl e \<Rightarrow> Inl e | Inr p \<Rightarrow> Inr (Compiled s p)))"

fun routes_store :: "route_key \<Rightarrow> (string \<times> handler) list \<Rightarrow> route_table \<Rightarrow> route_table" where
  "routes_store key tbl [] = [(key, tbl)]"
| "routes_store key tbl ((key', tbl') # rs) =
     (if is_compiled key' = is_compiled key \<and> key_source key' = key_source key
      then (key', tbl) # rs
      else (key', tbl') # routes_store key tbl rs)"

fun compile_routes :: "('jp, 'fp) libs \<Rightarrow> route_table \<Rightarrow> route_table \<Rightarrow> pyerr + route_table" where
  "compile_routes L [] acc = Inr acc"
| "compile_routes L ((key, tbl) # rs) acc =
     (case compile_key L key of
        Inl e \<Rightarrow> Inl e
      | Inr key' \<Rightarrow> compile_routes L rs (routes_store key' tbl acc))"

text \<open>
  The state of the lifespan loop: whether \<^verbatim>\<open>__call__\<close> has returned, the exception that
  has left it, if any, the events not yet received, the app, the shared state, the
  messages sent and the call log.
\<close>

record lifespan_state =
  returned :: bool
  escaped :: "pyerr option"
  pending_events :: "string list"
  the_app :: app
  shared :: "(string \<times> pyval) list"
  sent :: "message list"
  hook_log :: "string list"

text \<open>
  The loop \<^verbatim>\<open>while True: event = await receive()\<close> on the types of the events to come.
  When they are used up the loop waits: \<open>returned\<close> stays false. \<^verbatim>\<open>except Exception\<close>
  catches what a hook raises, or \<^verbatim>\<open>re.compile\<close>, when it is an instance of \<^verbatim>\<open>Exception\<close>;
  anything else that a hook raises leaves \<^verbatim>\<open>__call__\<close> with nothing sent.
\<close>

fun lifespan :: "('jp, 'fp) libs \<Rightarrow> string list \<Rightarrow> lifespan_state \<Rightarrow> lifespan_state" where
  "lifespan L [] s = s\<lparr>pending_events := []\<rparr>"
| "lifespan L (ev # evs) s =
     (if ev = ''lifespan.startup'' then
        (case run_hooks (startup (the_app s)) (shared s) (hook_log s) of
           (Some (AnException e), st, log) \<Rightarrow>
             s\<lparr>returned := True, pending_events := evs, shared := st,
               sent := sent s @ [StartupFailed (exc_text e)], hook_log := log\<rparr>
         | (Some (ABaseException e), st, log) \<Rightarrow>
             s\<lparr>escaped := Some e, pending_events := evs, shared := st, hook_log := log\<rparr>
         | (None, st, log) \<Rightarrow>
             (case compile_routes L (routes (the_app s)) [] of
                Inl e \<Rightarrow>
                  s\<lparr>returned := True, pending_events := evs, shared := st,
                    sent := sent s @ [StartupFailed (exc_text e)], hook_log := log\<rparr>
              | Inr rs \<Rightarrow>
                  lifespan L evs
                    (s\<lparr>the_app := (the_app s)\<lparr>routes := rs\<rparr>, shared := st,
                       sent := sent s @ [StartupComplete], hook_log := log\<rparr>)))
      else if ev = ''lifespan.shutdown'' then
        (case run_hooks (shutdown (the_app s)) (shared s) (hook_log s) of
           (Some (AnException e), st, log) \<Rightarrow>
             s\<lparr>returned := True, pending_events := evs, shared := st,
               sent := sent s @ [ShutdownFailed (exc_text e)], hook_log := log\<rparr>
         | (Some (ABaseException e), st, log) \<Rightarrow>
             s\<lparr>escaped := Some e, pending_events := evs, shared := st, hook_log := log\<rparr>
         | (None, st, log) \<Rightarrow>
             s\<lparr>returned := True, pending_events := evs, shared := st,
               sent := sent s @ [ShutdownComplete], hook_log := log\<rparr>)
      else lifespan L evs s)"

definition lifespan_start :: "app \<Rightarrow> (string \<times> pyval) list \<Rightarrow> lifespan_state" where
  "lifespan_start a st =
     \<lparr>returned = False, escaped = None, pending_events = [], the_app = a, shared = st,
      sent = [], hook_log = []\<rparr>"

section \<open>The http branch of \<^verbatim>\<open>App.__call__\<close>\<close>

text \<open>The keys of the connection scope that the branch reads.\<close>

record scope =
  sc_method :: string
  sc_path :: string
  query_string :: string
  sc_headers :: "(string \<times> string) list"
  sc_state :: "(string \<times> pyval) list"

text \<open>
  What the branch acts on besides the request: the events that \<^verbatim>\<open>receive\<close> will still
  deliver, the messages given to \<^verbatim>\<open>send\<close>, and the names of the hooks and handlers
  called so far.
\<close>

record world =
  inbox :: "event list"
  outbox :: "message list"
  calls :: "string list"

text \<open>The names bound at the top level of \<^verbatim>\<open>uhttp.py\<close>, by its imports and definitions.\<close>

definition uhttp_globals :: "string list" where
  "uhttp_globals =
     [''re'', ''ijson'', ''json'', ''HTTPStatus'', ''SimpleCookie'', ''CookieError'',
      ''parse_qsl'', ''unquote'', ''normalize'', ''to_thread'', ''iscoroutinefunction'',
      ''multipart'', ''parse_options_header'', ''asyncfy'', ''MultiDict'', ''Headers'',
      ''Request'', ''Response'', ''Body'', ''App'']"

text \<open>
  \<^verbatim>\<open>raise C(n)\<close> for a name \<open>C\<close> that is no local variable: \<^verbatim>\<open>NameError\<close> unless the
  module binds it. \<^verbatim>\<open>Response\<close> is the only class of the module whose instances the
  pipeline catches.
\<close>

definition raise_named :: "('jp, 'fp) libs \<Rightarrow> string \<Rightarrow> int \<Rightarrow> exn" where
  "raise_named L c n =
     (if c \<notin> set uhttp_globals then RaisedError (PyErr ''NameError'' c)
      else if c = ''Response'' then
        (case Response_init L n ArgNone [] [] of
           Inl e \<Rightarrow> RaisedError e
         | Inr r \<Rightarrow> RaisedResponse r)
      else RaisedError (PyErr ''TypeError'' c))"

text \<open>
  The request that the branch builds from the scope: the query string is unquoted as a
  whole and the result is given to \<^verbatim>\<open>parse_qsl\<close>.
\<close>

definition scope_request :: "scope \<Rightarrow> pyerr + request" where
  "scope_request sc =
     Request_init (sc_method sc) (sc_path sc)
       (ArgSeq (map (\<lambda>(k, v). (k, PyStr v)) (parse_qsl (unquote_bytes (query_string sc)))))
       (sc_state sc)"

text \<open>
  The list of decoded headers: a name that is not ASCII or a value that is not UTF-8
  raises \<^verbatim>\<open>UnicodeDecodeError\<close>.
\<close>

definition decode_headers :: "('jp, 'fp) libs \<Rightarrow> (string \<times> string) list \<Rightarrow> pyerr + multidict" where
  "decode_headers L hs =
     (if list_all (\<lambda>(k, v). list_all is_ascii k \<and> utf8_valid v) hs
      then Headers_init (ArgSeq (map (\<lambda>(k, v). (k, PyStr (normalize_NFC L v))) hs))
      else Inl (PyErr ''UnicodeDecodeError'' []))"

text \<open>Which decoder the parsed content type selects.\<close>

datatype decoder = JsonDecoder | FormDecoder | NoDecoder

definition content_decoder :: "string \<Rightarrow> decoder" where
  "content_decoder content_type =
     (if (case split_on CHR ''+'' content_type of [] \<Rightarrow> False | w # ws \<Rightarrow> w = ''application/json'')
      then JsonDecoder
      else if content_type \<in> set [''application/x-www-form-urlencoded'', ''multipart/form-data'']
      then FormDecoder
      else NoDecoder)"

text \<open>
  \<^verbatim>\<open>async for json in ijson.items(Body(receive), ''): request.json = json\<close>. The
  iterator reads the body block by block until a read returns no data, feeds each block
  to the parser, and the loop body stores every value that comes out.
\<close>

definition store_json :: "pyval list \<Rightarrow> request \<Rightarrow> request" where
  "store_json vs req = fold (\<lambda>v r. r\<lparr>json := v\<rparr>) vs req"

definition reader_size :: "body_reader \<Rightarrow> nat" where
  "reader_size b = length (buffer b) + sum_list (map (\<lambda>e. Suc (length (ev_body e))) (receive b))"

function json_loop ::
  "('jp, 'fp) libs \<Rightarrow> 'jp \<Rightarrow> body_reader \<Rightarrow> request \<Rightarrow> unit outcome \<times> request \<times> body_reader" where
  "json_loop L jp b req =
     (case Body_read b (int (ijson_buf_size L)) of
        None \<Rightarrow> (Pending, req, b)
      | Some (data, b') \<Rightarrow>
          (if data = [] then
             (case ijson_close L jp of
                Inl e \<Rightarrow> (Raise (RaisedError e), req, b')
              | Inr vs \<Rightarrow> (Done (), store_json vs req, b'))
           else
             (case ijson_feed L jp data of
                Inl e \<Rightarrow> (Raise (RaisedError e), req, b')
              | Inr (jp', vs) \<Rightarrow> json_loop L jp' b' (store_json vs req))))"
  by pat_completeness auto
termination
proof (relation "measure (\<lambda>(L, jp, b, req). reader_size b)")
  show "wf (measure (\<lambda>(L :: ('jp, 'fp) libs, jp :: 'jp, b, req :: request). reader_size b))"
    by simp
next
  fix L :: "('jp, 'fp) libs" and jp :: 'jp and b :: body_reader and req :: request
    and x2 data b' and x2a :: "'jp \<times> pyval list" and jp' :: 'jp and vs :: "pyval list"
  assume rd: "Body_read b (int (ijson_buf_size L)) = Some x2" "(data, b') = x2" "data \<noteq> []"
  have fill: "\<And>rcv buf fin rcv' buf' fin'.
      Body_fill rcv buf fin = Some (rcv', buf', fin') \<Longrightarrow>
      length buf' + sum_list (map (\<lambda>e. Suc (length (ev_body e))) rcv')
        \<le> length buf + sum_list (map (\<lambda>e. Suc (length (ev_body e))) rcv)"
  proof -
    fix rcv buf fin rcv' buf' fin'
    show "Body_fill rcv buf fin = Some (rcv', buf', fin') \<Longrightarrow>
      length buf' + sum_list (map (\<lambda>e. Suc (length (ev_body e))) rcv')
        \<le> length buf + sum_list (map (\<lambda>e. Suc (length (ev_body e))) rcv)"
      by (induction rcv buf fin rule: Body_fill.induct) (auto split: if_splits)
  qed
  have shrink: "\<And>k buf :: string. take k buf \<noteq> [] \<Longrightarrow> length buf - k < length buf"
  proof -
    fix k and buf :: string
    assume "take k buf \<noteq> []"
    then have "0 < k" and "0 < length buf"
      by (cases k; cases buf; simp)+
    then show "length buf - k < length buf"
      by arith
  qed
  from rd have "reader_size b' < reader_size b"
    by (cases "finished b")
       (auto simp: Body_read_def reader_size_def split: if_splits option.splits
             dest!: fill dest: shrink)
  then show "((L, jp', b', store_json vs req), (L, jp, b, req))
      \<in> measure (\<lambda>(L, jp, b, req). reader_size b)"
    by simp
qed

declare json_loop.simps [simp del]

text \<open>
  The loop over the chunks of a form body. \<^verbatim>\<open>request.body\<close> is what the constructor
  made it: no statement of the loop assigns to it.
\<close>

definition store_fields :: "(string \<times> pyval) list \<Rightarrow> request \<Rightarrow> request" where
  "store_fields fs req = req\<lparr>form := fold (\<lambda>(k, v) m. MultiDict_setitem m k v) fs (form req)\<rparr>"

fun form_loop ::
  "('jp, 'fp) libs \<Rightarrow> int \<Rightarrow> 'fp \<Rightarrow> request \<Rightarrow> world \<Rightarrow> event list \<Rightarrow>
     'fp outcome \<times> request \<times> world" where
  "form_loop L mx fp req w [] = (Pending, req, w\<lparr>inbox := []\<rparr>)"
| "form_loop L mx fp req w (ev # evs) =
     (case form_write L fp (ev_body ev) of
        (fs, Inl e) \<Rightarrow> (Raise (RaisedError e), store_fields fs req, w\<lparr>inbox := evs\<rparr>)
      | (fs, Inr fp') \<Rightarrow>
          (if int (length (req_body (store_fields fs req))) > mx
           then (Raise (raise_named L ''HTTPException'' 413), store_fields fs req, w\<lparr>inbox := evs\<rparr>)
           else if \<not> more_body ev
           then (Done fp', store_fields fs req, w\<lparr>inbox := evs\<rparr>)
           else form_loop L mx fp' (store_fields fs req) w evs))"

text \<open>Sequencing of two stages: the second runs when the first ends with a result.\<close>

definition and_then ::
  "'a outcome \<times> request \<times> world \<Rightarrow>
   ('a \<Rightarrow> request \<Rightarrow> world \<Rightarrow> 'b outcome \<times> request \<times> world) \<Rightarrow>
   'b outcome \<times> request \<times> world" where
  "and_then x f =
     (case x of
        (Done a, req, w) \<Rightarrow> f a req w
      | (Raise e, req, w) \<Rightarrow> (Raise e, req, w)
      | (Pending, req, w) \<Rightarrow> (Pending, req, w))"

text \<open>The exception classes that the JSON branch turns into a 400.\<close>

definition json_errors :: "string list" where
  "json_errors = [''UnicodeDecodeError'', ''JSONError'', ''IncompleteJSONError'']"

definition decode_content ::
  "('jp, 'fp) libs \<Rightarrow> app \<Rightarrow> string \<Rightarrow> request \<Rightarrow> world \<Rightarrow> unit outcome \<times> request \<times> world" where
  "decode_content L a content_type req w =
     (case content_decoder content_type of
        JsonDecoder \<Rightarrow>
          (case json_loop L (ijson_start L) (Body_init (inbox w)) req of
             (Raise (RaisedError e), req', b) \<Rightarrow>
               (if err_class e \<in> set json_errors
                then (Raise (raise_named L ''Response'' 400), req', w\<lparr>inbox := receive b\<rparr>)
                else (Raise (RaisedError e), req', w\<lparr>inbox := receive b\<rparr>))
           | (r, req', b) \<Rightarrow> (r, req', w\<lparr>inbox := receive b\<rparr>))
      | FormDecoder \<Rightarrow>
          (case create_form_parser L (req_headers req) of
             Inl e \<Rightarrow> (Raise (RaisedError e), req\<lparr>form := []\<rparr>, w)
           | Inr fp \<Rightarrow>
               and_then (form_loop L (max_content a) fp (req\<lparr>form := []\<rparr>) w (inbox w))
                 (\<lambda>fp' req' w'.
                    (case form_finalize L fp' of
                       (fs, Some e) \<Rightarrow> (Raise (RaisedError e), store_fields fs req', w')
                     | (fs, None) \<Rightarrow> (Done (), store_fields fs req', w'))))
      | NoDecoder \<Rightarrow> (Done (), req, w))"

text \<open>\<^verbatim>\<open>await asyncfy(func, request)\<close>, with the call recorded.\<close>

definition call_handler ::
  "handler \<Rightarrow> request \<Rightarrow> world \<Rightarrow> anyval outcome \<times> request \<times> world" where
  "call_handler h req w =
     (case snd h req of
        (Inl e, req') \<Rightarrow> (Raise e, req', w\<lparr>calls := calls w @ [fst h]\<rparr>)
      | (Inr ret, req') \<Rightarrow> (Done ret, req', w\<lparr>calls := calls w @ [fst h]\<rparr>))"

text \<open>\<^verbatim>\<open>raise Response.from_any(ret)\<close>\<close>

definition raise_from_any :: "('jp, 'fp) libs \<Rightarrow> anyval \<Rightarrow> exn" where
  "raise_from_any L ret =
     (case from_any L ret of Inl e \<Rightarrow> RaisedError e | Inr r \<Rightarrow> RaisedResponse r)"

text \<open>The loop over the before-hooks.\<close>

fun run_before ::
  "('jp, 'fp) libs \<Rightarrow> handler list \<Rightarrow> request \<Rightarrow> world \<Rightarrow> unit outcome \<times> request \<times> world" where
  "run_before L [] req w = (Done (), req, w)"
| "run_before L (h # hs) req w =
     and_then (call_handler h req w)
       (\<lambda>ret req' w'.
          if truthy ret then (Raise (raise_from_any L ret), req', w')
          else run_before L hs req' w')"

text \<open>\<^verbatim>\<open>', '.join(methods)\<close>\<close>

fun join :: "string \<Rightarrow> string list \<Rightarrow> string" where
  "join sep [] = []"
| "join sep [x] = x"
| "join sep (x # y # ys) = x @ sep @ join sep (y # ys)"

text \<open>
  The loop over the routes, with its \<^verbatim>\<open>else\<close> branch. A key that is still a string has
  no \<^verbatim>\<open>fullmatch\<close>.
\<close>

fun dispatch ::
  "('jp, 'fp) libs \<Rightarrow> route_table \<Rightarrow> request \<Rightarrow> world \<Rightarrow> response outcome \<times> request \<times> world" where
  "dispatch L [] req w =
     (case Response_init L 404 ArgNone [] [] of
        Inl e \<Rightarrow> (Raise (RaisedError e), req, w)
      | Inr r \<Rightarrow> (Done r, req, w))"
| "dispatch L ((key, methods) # rest) req w =
     (case key of
        Uncompiled s \<Rightarrow> (Raise (RaisedError (PyErr ''AttributeError'' ''fullmatch'')), req, w)
      | Compiled s pat \<Rightarrow>
          (case pat (path req) of
             None \<Rightarrow> dispatch L rest req w
           | Some groups \<Rightarrow>
               (case map_of methods (method req) of
                  Some func \<Rightarrow>
                    and_then (call_handler func (req\<lparr>params := groups\<rparr>) w)
                      (\<lambda>ret req' w'.
                         (case from_any L ret of
                            Inl e \<Rightarrow> (Raise (RaisedError e), req', w')
                          | Inr r \<Rightarrow> (Done r, req', w')))
                | None \<Rightarrow>
                    (case Response_init L 405 ArgNone [] [] of
                       Inl e \<Rightarrow> (Raise (RaisedError e), req\<lparr>params := groups\<rparr>, w)
                     | Inr r \<Rightarrow>
                         (Done (r\<lparr>headers := MultiDict_setitem (headers r) ''allow''
                                               (PyStr (join '', '' (map fst methods)))\<rparr>),
                          req\<lparr>params := groups\<rparr>, w)))))"

text \<open>The statements of the first \<^verbatim>\<open>try\<close> block, up to the response of the route.\<close>

definition raise_in :: "exn \<Rightarrow> request \<Rightarrow> world \<Rightarrow> 'a outcome \<times> request \<times> world" where
  "raise_in e req w = (Raise e, req, w)"

definition parse_request ::
  "('jp, 'fp) libs \<Rightarrow> app \<Rightarrow> scope \<Rightarrow> request \<Rightarrow> world \<Rightarrow> unit outcome \<times> request \<times> world" where
  "parse_request L a sc req w =
     (case decode_headers L (sc_headers sc) of
        Inl e \<Rightarrow>
          (if err_class e = ''UnicodeDecodeError'' then raise_in (raise_named L ''Response'' 400) req w
           else raise_in (RaisedError e) req w)
      | Inr h \<Rightarrow>
          (case Headers_get h ''cookie'' (PyStr []) of
             Inl e \<Rightarrow> raise_in (RaisedError e) (req\<lparr>req_headers := h\<rparr>) w
           | Inr raw \<Rightarrow>
               (case cookie_load L raw of
                  None \<Rightarrow> raise_in (raise_named L ''Response'' 400) (req\<lparr>req_headers := h\<rparr>) w
                | Some cs \<Rightarrow>
                    (case Headers_get h ''content-type'' (PyStr []) of
                       Inl e \<Rightarrow> raise_in (RaisedError e) (req\<lparr>req_headers := h, req_cookies := cs\<rparr>) w
                     | Inr ct \<Rightarrow>
                         (case parse_options_header L ct of
                            Inl e \<Rightarrow>
                              raise_in (RaisedError e) (req\<lparr>req_headers := h, req_cookies := cs\<rparr>) w
                          | Inr content_type \<Rightarrow>
                              decode_content L a content_type
                                (req\<lparr>req_headers := h, req_cookies := cs\<rparr>) w)))))"

definition try_block ::
  "('jp, 'fp) libs \<Rightarrow> app \<Rightarrow> scope \<Rightarrow> request \<Rightarrow> world \<Rightarrow> response outcome \<times> request \<times> world" where
  "try_block L a sc req w =
     and_then (parse_request L a sc req w)
       (\<lambda>u req1 w1.
          and_then (run_before L (before a) req1 w1)
            (\<lambda>u req2 w2. dispatch L (routes a) req2 w2))"

text \<open>\<^verbatim>\<open>except Response as early_response: response = early_response\<close>\<close>

definition catch_response ::
  "response outcome \<times> request \<times> world \<Rightarrow> response outcome \<times> request \<times> world" where
  "catch_response x =
     (case x of
        (Raise (RaisedResponse r), req, w) \<Rightarrow> (Done r, req, w)
      | other \<Rightarrow> other)"

text \<open>
  The loop over the after-hooks: each gets the request and the response object, which
  it may change.
\<close>

fun run_after ::
  "('jp, 'fp) libs \<Rightarrow> after_hook list \<Rightarrow> response \<Rightarrow> request \<Rightarrow> world \<Rightarrow>
     response outcome \<times> request \<times> world" where
  "run_after L [] resp req w = (Done resp, req, w)"
| "run_after L (h # hs) resp req w =
     (case snd h req resp of
        (Inl e, req', resp') \<Rightarrow> (Raise e, req', w\<lparr>calls := calls w @ [fst h]\<rparr>)
      | (Inr ret, req', resp') \<Rightarrow>
          (if truthy ret
           then (Raise (raise_from_any L ret), req', w\<lparr>calls := calls w @ [fst h]\<rparr>)
           else run_after L hs resp' req' (w\<lparr>calls := calls w @ [fst h]\<rparr>)))"

text \<open>The response that the branch is about to send: both \<^verbatim>\<open>try\<close> statements.\<close>

definition http_response ::
  "('jp, 'fp) libs \<Rightarrow> app \<Rightarrow> scope \<Rightarrow> world \<Rightarrow> response outcome \<times> request option \<times> world" where
  "http_response L a sc w =
     (case scope_request sc of
        Inl e \<Rightarrow> (Raise (RaisedError e), None, w)
      | Inr req \<Rightarrow>
          (case and_then (catch_response (try_block L a sc req w))
                  (\<lambda>resp req1 w1. catch_response (run_after L (after a) resp req1 w1)) of
             (r, req2, w2) \<Rightarrow> (r, Some req2, w2)))"

text \<open>The two messages: the header lines and the body.\<close>

definition header_lines :: "('jp, 'fp) libs \<Rightarrow> multidict \<Rightarrow> (string \<times> string) list" where
  "header_lines L h = concat (map (\<lambda>(k, l). map (\<lambda>v. (lower k, py_str L v)) l) (MultiDict__items h))"

definition serialize :: "('jp, 'fp) libs \<Rightarrow> response \<Rightarrow> message list" where
  "serialize L resp =
     (let h1 = MultiDict__update (headers resp)
                 [(''content-length'', [PyInt (int (length (body resp)))])];
          h2 = (if cookies resp \<noteq> []
                then MultiDict__update h1 [(''set-cookie'', map (\<lambda>(n, s). PyStr s) (cookies resp))]
                else h1)
      in [ResponseStart (status resp) (header_lines L h2), ResponseBody (body resp)])"

definition http :: "('jp, 'fp) libs \<Rightarrow> app \<Rightarrow> scope \<Rightarrow> world \<Rightarrow> unit outcome \<times> world" where
  "http L a sc w =
     (case http_response L a sc w of
        (Done resp, req, w') \<Rightarrow> (Done (), w'\<lparr>outbox := outbox w' @ serialize L resp\<rparr>)
      | (Raise e, req, w') \<Rightarrow> (Raise e, w')
      | (Pending, req, w') \<Rightarrow> (Pending, w'))"

section \<open>An instance of the libraries\<close>

text \<open>
  A small instance of the library record, for evaluating the model on concrete requests.
  Status phrases are those of \<^verbatim>\<open>HTTPStatus\<close>; a path pattern is a literal, which matches
  the equal path with no groups, or a literal followed by the named group
  \<^verbatim>\<open>(?P<id>.+)\<close>, which matches a path that starts with the literal and goes on, the rest
  being the group \<^verbatim>\<open>id\<close>; the JSON encoder writes dicts of strings; the JSON parser
  yields the whole input as one value and fails on empty input; the form
  parser collects the chunks and reads them as a urlencoded form when it is finalized.
\<close>

definition example_pattern :: "string \<Rightarrow> pattern" where
  "example_pattern s p =
     (let g = ''(?P<id>.+)''; n = length s - length g in
      if length g \<le> length s \<and> drop n s = g
      then (if take n p = take n s \<and> n < length p then Some [(''id'', PyStr (drop n p))] else None)
      else (if p = s then Some [] else None))"

fun decimal :: "nat \<Rightarrow> string" where
  "decimal n = (if n < 10 then [char_of (48 + n)] else decimal (n div 10) @ [char_of (48 + n mod 10)])"

definition example_dumps :: "(string \<times> pyval) list \<Rightarrow> pyerr + string" where
  "example_dumps d =
     (if list_all (\<lambda>(k, v). case v of PyStr s \<Rightarrow> True | _ \<Rightarrow> False) d
      then Inr (''{'' @ join '', '' (map (\<lambda>(k, v). [CHR 0x22] @ k @ [CHR 0x22] @ '': '' @
                        (case v of PyStr s \<Rightarrow> [CHR 0x22] @ s @ [CHR 0x22] | _ \<Rightarrow> [])) d) @ ''}'')
      else Inl (PyErr ''TypeError'' ''not JSON serializable''))"

definition example_str :: "pyval \<Rightarrow> string" where
  "example_str v =
     (case v of PyStr s \<Rightarrow> s | PyBytes s \<Rightarrow> s | PyInt n \<Rightarrow> (if n < 0 then ''-'' else []) @ decimal (nat \<bar>n\<bar>)
      | PyNone \<Rightarrow> ''None'' | PyBool b \<Rightarrow> (if b then ''True'' else ''False'') | _ \<Rightarrow> ''object'')"

definition example_libs :: "(string, string) libs" where
  "example_libs =
     \<lparr>phrase = HTTPStatus_phrase,
      json_dumps = example_dumps,
      py_str = example_str,
      re_compile = (\<lambda>s. Inr (example_pattern s)),
      normalize_NFC = (\<lambda>s. s),
      cookie_load = (\<lambda>v. Some []),
      parse_options_header =
        (\<lambda>v. case v of PyStr s \<Rightarrow> Inr (lower (takeWhile (\<lambda>c. c \<noteq> CHR '';'') s)) | _ \<Rightarrow> Inr []),
      ijson_buf_size = 65536,
      ijson_start = [],
      ijson_feed = (\<lambda>jp data. Inr (jp @ data, [])),
      ijson_close =
        (\<lambda>jp. if jp = [] then Inl (PyErr ''IncompleteJSONError'' ''parse error'') else Inr [PyStr jp]),
      create_form_parser = (\<lambda>h. Inr []),
      form_write = (\<lambda>fp data. ([], Inr (fp @ data))),
      form_finalize = (\<lambda>fp. (map (\<lambda>(k, v). (k, PyStr v)) (parse_qsl fp), None))\<rparr>"

text \<open>
  An application with one before-hook, one route and one after-hook, each answering with a
  fixed value, as the decorators and the startup event build it.
\<close>

definition constant_handler :: "string \<Rightarrow> anyval \<Rightarrow> handler" where
  "constant_handler n v = (n, \<lambda>req. (Inr v, req))"

definition constant_after :: "string \<Rightarrow> anyval \<Rightarrow> after_hook" where
  "constant_after n v = (n, \<lambda>req resp. (Inr v, req, resp))"

definition example_app :: "anyval \<Rightarrow> int \<Rightarrow> app" where
  "example_app before_value limit =
     the_app (lifespan example_libs [''lifespan.startup'']
       (lifespan_start
          (App_after
             (App_before
                (App_route (App_init\<lparr>max_content := limit\<rparr>) ''/'' [''GET'', ''POST'']
                   (constant_handler ''index'' (Value (PyStr ''index page''))))
                (constant_handler ''guard'' before_value))
             (constant_after ''log'' (Value PyNone)))
          []))"

definition example_scope :: "string \<Rightarrow> string \<Rightarrow> string \<Rightarrow> scope" where
  "example_scope m p content_type =
     \<lparr>sc_method = m, sc_path = p, query_string = [],
      sc_headers = [(''Content-Type'', content_type)], sc_state = []\<rparr>"

definition example_world :: "event list \<Rightarrow> world" where
  "example_world evs = \<lparr>inbox = evs, outbox = [], calls = []\<rparr>"

text \<open>The request that the pipeline makes of an example scope with path \<^verbatim>\<open>/\<close>.\<close>

definition example_request :: "string \<Rightarrow> string \<Rightarrow> request" where
  "example_request m ct =
     \<lparr>method = m, path = ''/'', params = [], args = [],
      req_headers = [(''content-type'', [PyList [PyStr ct]])], req_cookies = [], req_body = [],
      json = PyDict [], form = [], state = []\<rparr>"

text \<open>
  An application with two startup hooks, the second of which raises a \<^verbatim>\<open>RuntimeError\<close>,
  and one whose second startup hook calls \<^verbatim>\<open>sys.exit(1)\<close>.
\<close>

definition example_startup_app :: app where
  "example_startup_app =
     App_startup
       (App_startup
          (App_route App_init ''/'' [''GET'']
             (constant_handler ''index'' (Value (PyStr ''index page''))))
          (''connect'', \<lambda>st. (None, st @ [(''db'', PyStr ''open'')])))
       (''migrate'', \<lambda>st. (Some (AnException (PyErr ''RuntimeError'' ''no schema'')), st))"

definition example_exit_app :: app where
  "example_exit_app =
     App_startup
       (App_startup
          (App_route App_init ''/'' [''GET'']
             (constant_handler ''index'' (Value (PyStr ''index page''))))
          (''connect'', \<lambda>st. (None, st @ [(''db'', PyStr ''open'')])))
       (''check'', \<lambda>st. (Some (ABaseException (PyErr ''SystemExit'' ''1'')), st))"

text \<open>
  An application with three before-hooks, of which the second answers, one route and two
  after-hooks, as the decorators and the startup event build it.
\<close>

definition example_veto_app :: app where
  "example_veto_app =
     the_app (lifespan example_libs [''lifespan.startup'']
       (lifespan_start
          (App_after
             (App_after
                (App_before
                   (App_before
                      (App_before
                         (App_route App_init ''/'' [''GET'']
                            (constant_handler ''index'' (Value (PyStr ''index page''))))
                         (constant_handler ''auth'' (Value PyNone)))
                      (constant_handler ''guard'' (Value (PyStr ''no''))))
                   (constant_handler ''late'' (Value (PyStr ''late''))))
                (constant_after ''log'' (Value PyNone)))
             (constant_after ''metrics'' (Value PyNone)))
          []))"

text \<open>
  Four registrations on three paths: the second path has a group and matches every path
  that the third matches; the first path is registered twice, for \<^verbatim>\<open>POST\<close> and then for
  \<^verbatim>\<open>GET\<close>. The handler of the second answers with the group \<^verbatim>\<open>id\<close>.
\<close>

definition show_user :: handler where
  "show_user =
     (''show_user'',
      \<lambda>req. (Inr (Value (case map_of (params req) ''id'' of Some v \<Rightarrow> v | None \<Rightarrow> PyNone)), req))"

definition example_registrations :: "(string \<times> string list \<times> handler) list" where
  "example_registrations =
     [(''/'', [''POST''], constant_handler ''create'' (Value (PyStr ''created''))),
      (''/users/(?P<id>.+)'', [''GET''], show_user),
      (''/'', [''GET''], constant_handler ''index'' (Value (PyStr ''index page''))),
      (''/users/me'', [''GET''], constant_handler ''me'' (Value (PyStr ''my page'')))]"

section \<open>Hooks that let the pipeline pass\<close>

text \<open>
  The hypotheses of the properties below speak of the hooks that ran before the one of
  interest. A startup hook passes when it does not raise; a before-hook and an
  after-hook pass when they return a value that is not true. Each function gives the
  state, the request or the response as the hooks leave it when all of them pass.
\<close>

fun hooks_pass :: "lifespan_hook list \<Rightarrow> (string \<times> pyval) list \<Rightarrow> (string \<times> pyval) list option" where
  "hooks_pass [] st = Some st"
| "hooks_pass (h # hs) st =
     (case snd h st of (None, st') \<Rightarrow> hooks_pass hs st' | (Some e, st') \<Rightarrow> None)"

fun before_pass :: "handler list \<Rightarrow> request \<Rightarrow> request option" where
  "before_pass [] req = Some req"
| "before_pass (h # hs) req =
     (case snd h req of
        (Inr ret, req') \<Rightarrow> (if truthy ret then None else before_pass hs req')
      | (Inl e, req') \<Rightarrow> None)"

fun after_pass :: "after_hook list \<Rightarrow> response \<Rightarrow> request \<Rightarrow> (response \<times> request) option" where
  "after_pass [] resp req = Some (resp, req)"
| "after_pass (h # hs) resp req =
     (case snd h req resp of
        (Inr ret, req', resp') \<Rightarrow> (if truthy ret then None else after_pass hs resp' req')
      | (Inl e, req', resp') \<Rightarrow> None)"

text \<open>
  Registration. The decorators \<^verbatim>\<open>route\<close>, \<^verbatim>\<open>get\<close>, \<^verbatim>\<open>post\<close> and the others each register
  one path with some methods and a handler; \<open>register_all\<close> applies a list of such
  registrations in order. For the statements about the order: the elements of a list in
  the order of their first occurrence, and the pairs of a method and a handler that the
  registrations give a path, in their order.
\<close>

definition register_all :: "(string \<times> string list \<times> handler) list \<Rightarrow> app \<Rightarrow> app" where
  "register_all regs a = fold (\<lambda>(p, ms, f) a'. App_route a' p ms f) regs a"

definition first_seen :: "'a list \<Rightarrow> 'a list" where
  "first_seen xs = fold (\<lambda>x acc. if x \<in> set acc then acc else acc @ [x]) xs []"

definition registered_methods ::
  "string \<Rightarrow> (string \<times> string list \<times> handler) list \<Rightarrow> (string \<times> handler) list" where
  "registered_methods p regs =
     concat (map (\<lambda>(q, ms, f). if q = p then map (\<lambda>m. (m, f)) ms else []) regs)"

text \<open>The handler that the registrations leave for a method of a path: the last one.\<close>

definition registered_handler ::
  "string \<Rightarrow> string \<Rightarrow> (string \<times> string list \<times> handler) list \<Rightarrow> handler option" where
  "registered_handler p m regs = map_of (rev (registered_methods p regs)) m"

text \<open>
  The application that the four example registrations and the startup event build.
\<close>

definition example_router_app :: app where
  "example_router_app =
     the_app (lifespan example_libs [''lifespan.startup'']
       (lifespan_start (register_all example_registrations App_init) []))"

text \<open>What \<^verbatim>\<open>fullmatch\<close> of a key of the route table gives on a path.\<close>

fun key_match :: "route_key \<Rightarrow> string \<Rightarrow> (string \<times> pyval) list option" where
  "key_match (Compiled s p) x = p x"
| "key_match (Uncompiled s) x = None"

text \<open>
  The events of a body as the reads handle them well: every event but the last announces
  more, and the last one carries data. A reader is in order when it has finished exactly
  when no event is left; what it has not yet returned is its buffer and the bodies of the
  events to come.
\<close>

fun well_chunked :: "event list \<Rightarrow> bool" where
  "well_chunked [] = False"
| "well_chunked [e] = (\<not> more_body e \<and> ev_body e \<noteq> [])"
| "well_chunked (e # e' # es) = (more_body e \<and> well_chunked (e' # es))"

definition reader_ok :: "body_reader \<Rightarrow> bool" where
  "reader_ok b = (if finished b then receive b = [] else well_chunked (receive b))"

definition unread :: "body_reader \<Rightarrow> string" where
  "unread b = buffer b @ concat (map ev_body (receive b))"

section \<open>Properties of the dictionary operations\<close>

lemma map_of_dict_set: "map_of (dict_set k v d) = (map_of d)(k \<mapsto> v)"
  by (induction d) (auto simp: fun_eq_iff)

lemma keys_dict_set:
  "map fst (dict_set k v d) = (if k \<in> fst ` set d then map fst d else map fst d @ [k])"
  by (induction d) auto

lemma map_of_dict_del: "map_of (dict_del k d) = (map_of d)(k := None)"
  by (induction d) (auto simp: dict_del_def fun_eq_iff)

lemma keys_dict_del: "k \<notin> set (map fst (dict_del k d))"
  by (auto simp: dict_del_def)

section \<open>Properties of MultiDict and Headers\<close>

lemma map_of_setitem:
  "map_of (MultiDict_setitem m k v) =
     (map_of m)(k \<mapsto> (case map_of m k of None \<Rightarrow> [] | Some vs \<Rightarrow> vs) @ [v])"
  by (auto simp: MultiDict_setitem_def dict_setdefault_def map_of_dict_set fun_eq_iff
           split: option.splits)

lemma map_of_fold_setitem:
  "map_of (fold (\<lambda>(k, v) m. MultiDict_setitem m k v) ops m) k =
     (if values_for k ops = [] then map_of m k
      else Some ((case map_of m k of None \<Rightarrow> [] | Some vs \<Rightarrow> vs) @ values_for k ops))"
proof (induction ops arbitrary: m)
  case Nil
  then show ?case by (simp add: values_for_def)
next
  case (Cons p ops)
  obtain k' v where p: "p = (k', v)" by (cases p)
  show ?case
    by (simp add: p Cons.IH map_of_setitem values_for_def split: option.splits)
qed

lemma map_of_sets:
  "map_of (MultiDict_sets ops) k =
     (if values_for k ops = [] then None else Some (values_for k ops))"
  by (simp add: MultiDict_sets_def map_of_fold_setitem)

lemma values_for_Nil_iff: "values_for k ops = [] \<longleftrightarrow> k \<notin> fst ` set ops"
  by (induction ops) (auto simp: values_for_def)

lemma map_of_rev_ops:
  "map_of (rev ops) k =
     (if values_for k ops = [] then None else Some (last (values_for k ops)))"
proof (induction ops)
  case Nil
  then show ?case by (simp add: values_for_def)
next
  case (Cons p ops)
  obtain k' v where p: "p = (k', v)" by (cases p)
  show ?case
    using Cons.IH by (auto simp: p values_for_def map_add_def split: option.splits)
qed

lemma get_sets:
  "MultiDict_get (MultiDict_sets ops) k d =
     Inr (case map_of (rev ops) k of None \<Rightarrow> d | Some v \<Rightarrow> v)"
  by (cases "values_for k ops = []")
     (auto simp: MultiDict_get_def map_of_sets py_last_def map_of_rev_ops
           split: list.splits)

lemma get_all_sets:
  "MultiDict__get (MultiDict_sets ops) k ds =
     (if k \<in> fst ` set ops then values_for k ops else ds)"
  by (simp add: MultiDict__get_def map_of_sets values_for_Nil_iff)

lemma pop_many:
  "1 < length (MultiDict__get m k []) \<Longrightarrow>
     fst (MultiDict_pop m k d) = last (MultiDict__get m k []) \<and>
     MultiDict__get (snd (MultiDict_pop m k d)) k ds = butlast (MultiDict__get m k []) \<and>
     MultiDict_iter (snd (MultiDict_pop m k d)) = MultiDict_iter m"
  by (auto simp: MultiDict_pop_def MultiDict__get_def MultiDict_iter_def map_of_dict_set
        keys_dict_set Let_def weak_map_of_SomeI
      split: option.splits dest!: map_of_SomeD intro: rev_image_eqI)

lemma pop_last:
  "length (MultiDict__get m k []) \<le> 1 \<Longrightarrow>
     k \<notin> set (MultiDict_iter (snd (MultiDict_pop m k d))) \<and>
     MultiDict__get (snd (MultiDict_pop m k d)) k ds = ds"
proof (cases "map_of m k")
  case None
  assume "length (MultiDict__get m k []) \<le> 1"
  have "k \<notin> fst ` set m"
    using None by (simp add: map_of_eq_None_iff)
  then show ?thesis
    using None by (simp add: MultiDict_pop_def MultiDict__get_def MultiDict_iter_def)
next
  case (Some vs)
  assume "length (MultiDict__get m k []) \<le> 1"
  then have "\<not> 1 < length vs"
    using Some by (simp add: MultiDict__get_def)
  then show ?thesis
    using Some keys_dict_del [of k m]
    by (simp add: MultiDict_pop_def MultiDict__get_def MultiDict_iter_def map_of_dict_del)
qed

lemma pop_other:
  "k' \<noteq> k \<Longrightarrow> MultiDict__get (snd (MultiDict_pop m k d)) k' ds = MultiDict__get m k' ds"
  by (auto simp: MultiDict_pop_def MultiDict__get_def map_of_dict_set map_of_dict_del Let_def
      split: option.splits)

text \<open>
  C4. Building a MultiDict, or a Headers, from a MultiDict evaluates
  \<^verbatim>\<open>mapping.itemslist()\<close>, an attribute that neither class nor \<^verbatim>\<open>dict\<close> has: for every
  MultiDict \<open>m\<close> both constructors raise \<^verbatim>\<open>AttributeError\<close> instead of returning a copy.
\<close>

theorem MultiDict_from_MultiDict_raises:
  "MultiDict_init (ArgMultiDict m) = Inl (PyErr ''AttributeError'' ''itemslist'') \<and>
   Headers_init (ArgMultiDict m) = Inl (PyErr ''AttributeError'' ''itemslist'')"
  by (simp add: MultiDict_init_def Headers_init_def MultiDict_attributes_def)

text \<open>
  C5, against the claim as stated: on a MultiDict that has no key \<open>k\<close>, the all-values
  view \<^verbatim>\<open>_get(k)\<close> with its default argument is the one-element list \<^verbatim>\<open>[None]\<close>, not
  the empty list.
\<close>

theorem MultiDict_get_all_absent_counterexample:
  "\<not> (\<forall>ops k. k \<notin> fst ` set ops \<longrightarrow>
        MultiDict__get (MultiDict_sets ops) k MultiDict__get_default = [])"
proof
  assume a: "\<forall>ops k. k \<notin> fst ` set ops \<longrightarrow>
        MultiDict__get (MultiDict_sets ops) k MultiDict__get_default = []"
  have "MultiDict__get (MultiDict_sets []) ''a'' MultiDict__get_default = []"
    using a by simp
  then show False
    by (simp add: MultiDict__get_def MultiDict_sets_def MultiDict__get_default_def)
qed

text \<open>
  C5, amended. After any sequence \<open>ops\<close> of \<^verbatim>\<open>m[k] = v\<close> statements on an empty
  MultiDict, \<^verbatim>\<open>get(k, d)\<close> is the value most recently set for \<open>k\<close>, or \<open>d\<close> when \<open>k\<close> was
  never set; the all-values view \<^verbatim>\<open>_get(k, ds)\<close> is the list of the values set for \<open>k\<close> in
  the order of the statements, so its length is the number of them, and it is the
  default \<open>ds\<close> when \<open>k\<close> was never set (the list \<^verbatim>\<open>[None]\<close> when the caller gives none).
  On any MultiDict \<open>m\<close>, \<^verbatim>\<open>pop(k)\<close> returns and removes the last value of \<open>k\<close> while \<open>k\<close> has
  more than one, keeping the keys of the iteration; otherwise it removes \<open>k\<close> from the
  iteration. The values of the other keys stay.
\<close>

theorem MultiDict_set_get_pop:
  "MultiDict_get (MultiDict_sets ops) k d =
     Inr (case map_of (rev ops) k of None \<Rightarrow> d | Some v \<Rightarrow> v) \<and>
   MultiDict__get (MultiDict_sets ops) k ds =
     (if k \<in> fst ` set ops then map snd (filter (\<lambda>p. fst p = k) ops) else ds) \<and>
   (k \<in> fst ` set ops \<longrightarrow>
      length (MultiDict__get (MultiDict_sets ops) k ds) = length (filter (\<lambda>p. fst p = k) ops)) \<and>
   (k \<notin> fst ` set ops \<longrightarrow>
      MultiDict__get (MultiDict_sets ops) k MultiDict__get_default = [PyNone]) \<and>
   (1 < length (MultiDict__get m k []) \<longrightarrow>
      fst (MultiDict_pop m k d) = last (MultiDict__get m k []) \<and>
      MultiDict__get (snd (MultiDict_pop m k d)) k ds = butlast (MultiDict__get m k []) \<and>
      MultiDict_iter (snd (MultiDict_pop m k d)) = MultiDict_iter m) \<and>
   (length (MultiDict__get m k []) \<le> 1 \<longrightarrow>
      k \<notin> set (MultiDict_iter (snd (MultiDict_pop m k d))) \<and>
      MultiDict__get (snd (MultiDict_pop m k d)) k ds = ds) \<and>
   (k' \<noteq> k \<longrightarrow> MultiDict__get (snd (MultiDict_pop m k d)) k' ds = MultiDict__get m k' ds)"
proof -
  have "length (values_for k ops) = length (filter (\<lambda>p. fst p = k) ops)"
    by (simp add: values_for_def)
  then show ?thesis
    using get_sets [of ops k d] get_all_sets [of ops k] pop_many [of m k d ds]
      pop_last [of m k d ds] pop_other [of k' k m d ds]
    by (simp add: values_for_def MultiDict__get_default_def)
qed

theorem MultiDict_set_get_pop_witness:
  "MultiDict_get (MultiDict_sets [(''a'', PyInt 1), (''b'', PyInt 2), (''a'', PyInt 3)]) ''a'' PyNone
     = Inr (PyInt 3) \<and>
   MultiDict__get (MultiDict_sets [(''a'', PyInt 1), (''b'', PyInt 2), (''a'', PyInt 3)]) ''a'' []
     = [PyInt 1, PyInt 3] \<and>
   ''a'' \<in> fst ` set [(''a'', PyInt 1), (''b'', PyInt 2), (''a'', PyInt 3)] \<and>
   1 < length (MultiDict__get [(''a'', [PyInt 1, PyInt 3]), (''b'', [PyInt 2])] ''a'' []) \<and>
   fst (MultiDict_pop [(''a'', [PyInt 1, PyInt 3]), (''b'', [PyInt 2])] ''a'' PyNone) = PyInt 3 \<and>
   MultiDict_iter (snd (MultiDict_pop [(''a'', [PyInt 1, PyInt 3]), (''b'', [PyInt 2])] ''a'' PyNone))
     = [''a'', ''b''] \<and>
   ''b'' \<noteq> ''a'' \<and>
   MultiDict__get (snd (MultiDict_pop [(''a'', [PyInt 1, PyInt 3]), (''b'', [PyInt 2])] ''a'' PyNone))
     ''b'' [] = [PyInt 2]"
  using MultiDict_set_get_pop [of "[(''a'', PyInt 1), (''b'', PyInt 2), (''a'', PyInt 3)]" "''a''"
      PyNone "[]" "[(''a'', [PyInt 1, PyInt 3]), (''b'', [PyInt 2])]" "''b''"]
  by (simp add: MultiDict__get_def MultiDict_iter_def)

section \<open>Properties of Response\<close>

lemma Response_init_plain:
  "Response_init L st ArgNone cks bdy =
     Inr \<lparr>status = st,
          description = (case phrase L st of Some p \<Rightarrow> p | None \<Rightarrow> []),
          headers = [(''content-type'', [PyStr ''text/html; charset=utf-8''])],
          cookies = cks,
          body = (if bdy = [] \<and> 400 \<le> st \<and> st < 600
                  then (case phrase L st of Some p \<Rightarrow> p | None \<Rightarrow> []) else bdy)\<rparr>"
  by (simp add: Response_init_def MultiDict_init_def MultiDict_setdefault_def
        dict_setdefault_def py_last_def Let_def)

lemma Response_init_json:
  "Response_init L 200 (ArgDict [(''content-type'', PyStr ''application/json'')]) [] js =
     Inr \<lparr>status = 200,
          description = (case phrase L 200 of Some p \<Rightarrow> p | None \<Rightarrow> []),
          headers = [(''content-type'', [PyStr ''application/json''])],
          cookies = [], body = js\<rparr>"
  by (simp add: Response_init_def MultiDict_init_def MultiDict_setdefault_def
        dict_setdefault_def py_last_def dict_of_def Let_def)

lemma from_int_member:
  "phrase L n = Some p \<Longrightarrow>
   from_int L n =
     Inr \<lparr>status = n, description = p,
          headers = [(''content-type'', [PyStr ''text/html; charset=utf-8''])],
          cookies = [], body = p\<rparr>"
  by (simp add: from_int_def Response_init_plain)

lemma phrase_example_299: "phrase example_libs 299 = None"
  by (simp add: example_libs_def HTTPStatus_phrase_def HTTPStatus_table_def)

lemma phrase_example_200: "phrase example_libs 200 = Some ''OK''"
  by (simp add: example_libs_def HTTPStatus_phrase_def HTTPStatus_table_def)

lemma phrase_example_404: "phrase example_libs 404 = Some ''Not Found''"
  by (simp add: example_libs_def HTTPStatus_phrase_def HTTPStatus_table_def)

text \<open>
  C8, against the claim as stated: 299 is an integer and no member of \<^verbatim>\<open>HTTPStatus\<close>, so
  \<^verbatim>\<open>HTTPStatus(299)\<close> raises \<^verbatim>\<open>ValueError\<close> inside \<^verbatim>\<open>from_any\<close> and no Response with status
  299 comes out.
\<close>

theorem from_any_int_counterexample:
  "from_any example_libs (Value (PyInt 299)) = Inl (PyErr ''ValueError'' ''not a valid HTTPStatus'')"
  by (simp add: from_int_def phrase_example_299)

text \<open>
  C8, amended. \<^verbatim>\<open>Response.from_any\<close> turns an integer that is a member of \<^verbatim>\<open>HTTPStatus\<close>
  with phrase \<open>p\<close> into a Response with that status and body \<open>p\<close>; a string into status 200
  with its UTF-8 bytes as body; bytes into status 200 with that body; a mapping that
  \<^verbatim>\<open>json.dumps\<close> serializes into status 200 with content type \<^verbatim>\<open>application/json\<close> and
  the serialization as body; it returns a Response unchanged; it turns \<^verbatim>\<open>None\<close> into
  status 204 with an empty body; and it raises \<^verbatim>\<open>TypeError\<close> on a list or an object of
  another class.
\<close>

theorem from_any_coercion:
  "(phrase L n = Some p \<longrightarrow>
      from_any L (Value (PyInt n)) =
        Inr \<lparr>status = n, description = p,
             headers = [(''content-type'', [PyStr ''text/html; charset=utf-8''])],
             cookies = [], body = p\<rparr>) \<and>
   (\<exists>r. from_any L (Value (PyStr s)) = Inr r \<and> status r = 200 \<and> body r = s) \<and>
   (\<exists>r. from_any L (Value (PyBytes b)) = Inr r \<and> status r = 200 \<and> body r = b) \<and>
   (json_dumps L d = Inr js \<longrightarrow>
      (\<exists>r. from_any L (Value (PyDict d)) = Inr r \<and> status r = 200 \<and>
           MultiDict_get (headers r) ''content-type'' PyNone = Inr (PyStr ''application/json'') \<and>
           body r = js)) \<and>
   from_any L (Instance r0) = Inr r0 \<and>
   (\<exists>r. from_any L (Value PyNone) = Inr r \<and> status r = 204 \<and> body r = []) \<and>
   from_any L (Value (PyList l)) = Inl (PyErr ''TypeError'' []) \<and>
   from_any L (Value (PyObject c)) = Inl (PyErr ''TypeError'' [])"
  by (simp add: from_int_member Response_init_plain Response_init_json MultiDict_get_def py_last_def)

theorem from_any_coercion_witness:
  "phrase example_libs 404 = Some ''Not Found'' \<and>
   from_any example_libs (Value (PyInt 404)) =
     Inr \<lparr>status = 404, description = ''Not Found'',
          headers = [(''content-type'', [PyStr ''text/html; charset=utf-8''])],
          cookies = [], body = ''Not Found''\<rparr> \<and>
   json_dumps example_libs [(''a'', PyStr ''b'')] =
     Inr [CHR ''{'', CHR 0x22, CHR ''a'', CHR 0x22, CHR '':'', CHR '' '', CHR 0x22, CHR ''b'',
          CHR 0x22, CHR ''}''] \<and>
   (\<exists>r. from_any example_libs (Value (PyDict [(''a'', PyStr ''b'')])) = Inr r \<and> status r = 200 \<and>
        MultiDict_get (headers r) ''content-type'' PyNone = Inr (PyStr ''application/json'') \<and>
        body r = [CHR ''{'', CHR 0x22, CHR ''a'', CHR 0x22, CHR '':'', CHR '' '', CHR 0x22,
                  CHR ''b'', CHR 0x22, CHR ''}''])"
proof -
  have d: "json_dumps example_libs [(''a'', PyStr ''b'')] =
     Inr [CHR ''{'', CHR 0x22, CHR ''a'', CHR 0x22, CHR '':'', CHR '' '', CHR 0x22, CHR ''b'',
          CHR 0x22, CHR ''}'']"
    by (simp add: example_libs_def example_dumps_def)
  show ?thesis
    using from_any_coercion [of example_libs 404 "''Not Found''" "[]" "[]"
        "[(''a'', PyStr ''b'')]"
        "[CHR ''{'', CHR 0x22, CHR ''a'', CHR 0x22, CHR '':'', CHR '' '', CHR 0x22, CHR ''b'',
          CHR 0x22, CHR ''}'']"]
      phrase_example_404 d
    by simp
qed

section \<open>Properties of Body\<close>

lemma Body_read_zero: "Body_read b 0 = Some ([], b)"
  by (simp add: Body_read_def)

lemma Body_read_positive:
  "0 < n \<Longrightarrow> Body_read b n = Some (data, b') \<Longrightarrow>
     length data \<le> nat n \<and> (\<exists>buf. data = take (nat n) buf \<and> buffer b' = drop (nat n) buf)"
  by (auto simp: Body_read_def split: if_splits option.splits)

lemma Body_read_negative:
  "n < 0 \<Longrightarrow> Body_read b n = Some (data, b') \<Longrightarrow> buffer b' = data"
  by (auto simp: Body_read_def split: if_splits option.splits)

text \<open>
  Where the last event of the body carries data and the reads ask for a positive number
  of bytes, successive reads do return the bytes of the body, whatever the chunks.
\<close>

lemma Body_fill_nonempty:
  "buf \<noteq> [] \<Longrightarrow> Body_fill rcv buf fin = Some (rcv, buf, fin)"
  by (cases rcv) simp_all

lemma Body_fill_well_chunked:
  "well_chunked rcv \<Longrightarrow>
     \<exists>rcv' buf. Body_fill rcv [] False = Some (rcv', buf, rcv' = []) \<and> buf \<noteq> [] \<and>
        buf @ concat (map ev_body rcv') = concat (map ev_body rcv) \<and>
        (rcv' = [] \<or> well_chunked rcv')"
proof (induction rcv rule: well_chunked.induct)
  case 1
  then show ?case by simp
next
  case (2 e)
  then show ?case by (simp add: Body_fill_nonempty)
next
  case (3 e e' es)
  show ?case
  proof (cases "ev_body e = []")
    case True
    then show ?thesis using 3 by simp
  next
    case False
    then show ?thesis using 3 by (simp add: Body_fill_nonempty)
  qed
qed

lemma Body_read_step:
  assumes "0 < n" and "reader_ok b" and "\<not> (buffer b = [] \<and> finished b)"
  shows "\<exists>data b'. Body_read b n = Some (data, b') \<and> data \<noteq> [] \<and>
           data @ unread b' = unread b \<and> reader_ok b'"
proof (cases "finished b")
  case True
  then show ?thesis
    using assms by (simp add: Body_read_def reader_ok_def unread_def)
next
  case nf: False
  show ?thesis
  proof (cases "buffer b = []")
    case False
    then show ?thesis
      using assms nf by (simp add: Body_read_def reader_ok_def unread_def Body_fill_nonempty)
  next
    case True
    from assms(2) nf have "well_chunked (receive b)"
      by (simp add: reader_ok_def)
    from Body_fill_well_chunked [OF this] obtain rcv' buf where
      f: "Body_fill (receive b) [] False = Some (rcv', buf, rcv' = [])" and "buf \<noteq> []"
      and "buf @ concat (map ev_body rcv') = concat (map ev_body (receive b))"
      and "rcv' = [] \<or> well_chunked rcv'"
      by blast
    then show ?thesis
      using assms(1) nf True
      by (cases "rcv' = []")
         (auto simp: Body_read_def reader_ok_def unread_def simp flip: append_assoc)
  qed
qed

lemma Body_reads_reconstruct:
  "0 < n \<Longrightarrow> reader_ok b \<Longrightarrow> \<exists>k ds. Body_reads k b n = Some ds \<and> concat ds = unread b"
proof (induction "length (unread b)" arbitrary: b rule: less_induct)
  case less
  show ?case
  proof (cases "buffer b = [] \<and> finished b")
    case True
    then have "Body_reads (Suc 0) b n = Some []" "unread b = []"
      using less.prems by (simp_all add: Body_read_def reader_ok_def unread_def)
    then show ?thesis by (metis concat.simps(1))
  next
    case False
    from Body_read_step [OF less.prems(1,2) False] obtain data b' where
      r: "Body_read b n = Some (data, b')" and d: "data \<noteq> []"
      and u: "data @ unread b' = unread b" and ok: "reader_ok b'"
      by blast
    have "length (unread b') < length (unread b)"
      using d u by (metis length_append length_greater_0_conv less_add_same_cancel2)
    from less.hyps [OF this less.prems(1) ok] obtain k ds where
      "Body_reads k b' n = Some ds" "concat ds = unread b'"
      by blast
    then have "Body_reads (Suc k) b n = Some (data # ds)" "concat (data # ds) = unread b"
      using r d u by simp_all
    then show ?thesis by blast
  qed
qed

lemma Body_reads_chunking_invariant:
  "0 < n \<Longrightarrow> well_chunked evs \<Longrightarrow>
     \<exists>k ds. Body_reads k (Body_init evs) n = Some ds \<and> concat ds = concat (map ev_body evs)"
  using Body_reads_reconstruct [of n "Body_init evs"]
  by (simp add: reader_ok_def unread_def Body_init_def)

text \<open>
  C2. Two runs of \<^verbatim>\<open>Body.read\<close> on the bytes \<^verbatim>\<open>ab\<close>. When the last event of the body is
  empty, as in the chunks \<^verbatim>\<open>ab\<close>, \<^verbatim>\<open>b''\<close>, the second \<^verbatim>\<open>read(5)\<close> sets \<^verbatim>\<open>finished\<close> inside the
  loop and awaits one more event, for ever; a body of one empty event blocks the first
  read. With \<^verbatim>\<open>n = -1\<close> a read returns the buffer and keeps it, so every later read
  returns the same bytes again and none returns the empty byte string.
\<close>

theorem Body_read_does_not_reconstruct:
  "Body_reads 2 (Body_init [\<lparr>ev_body = ''ab'', more_body = True\<rparr>,
                            \<lparr>ev_body = [], more_body = False\<rparr>]) 5 = None \<and>
   Body_read (Body_init [\<lparr>ev_body = [], more_body = False\<rparr>]) 5 = None \<and>
   Body_reads 3 (Body_init [\<lparr>ev_body = ''ab'', more_body = False\<rparr>]) (- 1)
     = Some [''ab'', ''ab'', ''ab'']"
  by (simp add: Body_read_def Body_init_def numeral_2_eq_2 numeral_3_eq_3)

section \<open>Properties of the content type and of the query string\<close>

lemma split_on_json_plus:
  "split_on CHR ''+'' (''application/json'' @ CHR ''+'' # suffix)
     = ''application/json'' # split_on CHR ''+'' suffix"
  by simp

lemma content_decoder_plus:
  "content_decoder (''application/json'' @ CHR ''+'' # suffix) = JsonDecoder"
  by (simp add: content_decoder_def)

lemma content_decoder_json: "content_decoder ''application/json'' = JsonDecoder"
  by (simp add: content_decoder_def)

text \<open>
  C3, against the claim as stated: for the content type \<^verbatim>\<open>application/ld+json\<close>, the
  claim's example, the part before the \<^verbatim>\<open>+\<close> is \<^verbatim>\<open>application/ld\<close>, and no decoder is
  selected.
\<close>

theorem content_decoder_ld_json_counterexample:
  "content_decoder ''application/ld+json'' = NoDecoder"
  by (simp add: content_decoder_def)

lemma split_on_nonempty: "split_on sep s \<noteq> []"
  by (induction s) (simp_all split: list.split)

lemma split_on_head:
  "(case split_on sep s of [] \<Rightarrow> False | w # ws \<Rightarrow> w = t) = (takeWhile (\<lambda>c. c \<noteq> sep) s = t)"
proof (induction s arbitrary: t)
  case Nil
  show ?case by auto
next
  case (Cons c cs)
  show ?case
  proof (cases "c = sep")
    case True
    then show ?thesis by auto
  next
    case False
    obtain w ws where sp: "split_on sep cs = w # ws"
      using split_on_nonempty [of sep cs] by (cases "split_on sep cs") simp_all
    have "takeWhile (\<lambda>c. c \<noteq> sep) cs = w"
      using Cons [of w] sp by simp
    with False sp show ?thesis by auto
  qed
qed

lemma content_decoder_iff:
  "(content_decoder ct = JsonDecoder) =
     (takeWhile (\<lambda>c. c \<noteq> CHR ''+'') ct = ''application/json'')"
  unfolding content_decoder_def split_on_head by simp

text \<open>
  C3, amended. The JSON decoder is selected exactly when the part of the content type
  before its first \<^verbatim>\<open>+\<close>, the whole of it when it has none, is \<^verbatim>\<open>application/json\<close>. So for
  every content type that is \<^verbatim>\<open>application/json\<close> followed by \<^verbatim>\<open>+\<close> and any suffix
  (\<^verbatim>\<open>application/json+ld\<close>), the JSON decoder is selected, and the pipeline decodes the body
  as it does for \<^verbatim>\<open>application/json\<close>: what follows the first \<^verbatim>\<open>+\<close> is ignored. A content
  type whose part before the first \<^verbatim>\<open>+\<close> is anything else does not select it.
\<close>

theorem content_decoder_json_suffix:
  "(content_decoder ct = JsonDecoder) =
     (takeWhile (\<lambda>c. c \<noteq> CHR ''+'') ct = ''application/json'') \<and>
   content_decoder (''application/json'' @ CHR ''+'' # suffix) = JsonDecoder \<and>
   decode_content L a (''application/json'' @ CHR ''+'' # suffix) req w
     = decode_content L a ''application/json'' req w"
proof (intro conjI)
  show "(content_decoder ct = JsonDecoder) =
     (takeWhile (\<lambda>c. c \<noteq> CHR ''+'') ct = ''application/json'')"
    by (rule content_decoder_iff)
  show "content_decoder (''application/json'' @ CHR ''+'' # suffix) = JsonDecoder"
    by (rule content_decoder_plus)
  show "decode_content L a (''application/json'' @ CHR ''+'' # suffix) req w
     = decode_content L a ''application/json'' req w"
    by (simp only: decode_content_def content_decoder_plus content_decoder_json simp_thms)
qed

lemma setdefault_append_eq: "setdefault_append m k v = MultiDict_setitem m k v"
  by (simp add: setdefault_append_def MultiDict_setitem_def MultiDict__setdefault_def)

lemma MultiDict_init_seq: "MultiDict_init (ArgSeq ps) = Inr (MultiDict_sets ps)"
  by (simp add: MultiDict_init_def MultiDict_sets_def setdefault_append_eq)

lemma scope_request_eq:
  "scope_request sc =
     Inr \<lparr>method = sc_method sc, path = sc_path sc, params = [],
          args = MultiDict_sets (map (\<lambda>(k, v). (k, PyStr v))
                   (parse_qsl (unquote_bytes (query_string sc)))),
          req_headers = [], req_cookies = [], req_body = [], json = PyDict [], form = [],
          state = sc_state sc\<rparr>"
  by (simp add: scope_request_def Request_init_def MultiDict_init_seq)
     (simp add: MultiDict_init_def Headers_init_def)

lemma unquote_bytes_amp: "unquote_bytes ''a=b%26c=d'' = ''a=b&c=d''"
  by (simp add: unquote_bytes_def hexval_def char_of_eq_iff)

lemma unquote_bytes_eq: "unquote_bytes ''a%3Db=c'' = ''a=b=c''"
  by (simp add: unquote_bytes_def hexval_def char_of_eq_iff)

lemma parse_qsl_plain_amp: "parse_qsl ''a=b&c=d'' = [(''a'', ''b''), (''c'', ''d'')]"
  by (simp add: parse_qsl_def parse_field_def split_once_def unquote_def plus_to_space_def)

lemma parse_qsl_plain_eq: "parse_qsl ''a=b=c'' = [(''a'', ''b=c'')]"
  by (simp add: parse_qsl_def parse_field_def split_once_def unquote_def plus_to_space_def)

lemma parse_qsl_quoted_amp: "parse_qsl ''a=b%26c=d'' = [(''a'', ''b&c=d'')]"
  by (simp add: parse_qsl_def parse_field_def split_once_def unquote_def plus_to_space_def
        hexval_def is_ascii_def char_of_eq_iff)

lemma parse_qsl_quoted_eq: "parse_qsl ''a%3Db=c'' = [(''a=b'', ''c'')]"
  by (simp add: parse_qsl_def parse_field_def split_once_def unquote_def plus_to_space_def
        hexval_def is_ascii_def char_of_eq_iff)

text \<open>
  C10. The query arguments of the request are the pairs that \<^verbatim>\<open>parse_qsl\<close> finds in the
  unquoted query string, each appended under its key. So \<^verbatim>\<open>a=b%26c=d\<close> gives the two
  pairs \<^verbatim>\<open>a=b\<close> and \<^verbatim>\<open>c=d\<close>, and \<^verbatim>\<open>a%3Db=c\<close> gives the key \<^verbatim>\<open>a\<close> with value \<^verbatim>\<open>b=c\<close>, where
  \<^verbatim>\<open>parse_qsl\<close> on the query string as it came gives the one pair \<^verbatim>\<open>a\<close>, \<^verbatim>\<open>b&c=d\<close> and the
  key \<^verbatim>\<open>a=b\<close> with value \<^verbatim>\<open>c\<close>.
\<close>

theorem query_args_unquoted_before_split:
  "(\<exists>req. scope_request sc = Inr req \<and>
      args req = MultiDict_sets (map (\<lambda>(k, v). (k, PyStr v))
                   (parse_qsl (unquote_bytes (query_string sc))))) \<and>
   parse_qsl (unquote_bytes ''a=b%26c=d'') = [(''a'', ''b''), (''c'', ''d'')] \<and>
   parse_qsl ''a=b%26c=d'' = [(''a'', ''b&c=d'')] \<and>
   parse_qsl (unquote_bytes ''a%3Db=c'') = [(''a'', ''b=c'')] \<and>
   parse_qsl ''a%3Db=c'' = [(''a=b'', ''c'')]"
  by (simp add: scope_request_eq unquote_bytes_amp unquote_bytes_eq parse_qsl_plain_amp
        parse_qsl_plain_eq parse_qsl_quoted_amp parse_qsl_quoted_eq)

section \<open>Properties of the lifespan branch\<close>

lemma run_hooks_append:
  "hooks_pass pre st = Some st' \<Longrightarrow>
     run_hooks (pre @ rest) st log = run_hooks rest st' (log @ map fst pre)"
  by (induction pre arbitrary: st log) (auto split: prod.splits option.splits)

text \<open>
  C9, against the claim as stated: the second startup hook of the application calls
  \<^verbatim>\<open>sys.exit(1)\<close>. \<^verbatim>\<open>SystemExit\<close> is no instance of \<^verbatim>\<open>Exception\<close>, so \<^verbatim>\<open>except Exception\<close>
  does not catch it: no message is sent, no startup failure among them, and the
  exception leaves \<^verbatim>\<open>__call__\<close>.
\<close>

theorem startup_hook_exit_counterexample:
  "sent (lifespan example_libs [''lifespan.startup''] (lifespan_start example_exit_app [])) = [] \<and>
   escaped (lifespan example_libs [''lifespan.startup''] (lifespan_start example_exit_app []))
     = Some (PyErr ''SystemExit'' ''1'') \<and>
   hook_log (lifespan example_libs [''lifespan.startup''] (lifespan_start example_exit_app []))
     = [''connect'', ''check'']"
  by (simp add: example_exit_app_def lifespan_start_def App_startup_def App_route_def
        App_init_def)

text \<open>
  C9, amended. Let the lifespan loop receive a startup event, let the startup hooks that
  come first not raise, and let the next one, \<open>h\<close>, raise. When what it raises is an
  instance of \<^verbatim>\<open>Exception\<close>, of class \<open>c\<close> and with text \<open>m\<close>, the loop sends one message, a
  startup failure whose text is \<open>c\<close>, a colon, a space and \<open>m\<close>, sends no startup
  completion, and returns with the later events not received; no later hook is called
  and the app, and so its route table, is left as it was. When what it raises is no
  instance of \<^verbatim>\<open>Exception\<close>, nothing is sent: the exception leaves the loop, again with no
  later hook called and the app as it was.
\<close>

theorem startup_hook_failure:
  "startup (the_app s) = pre @ h # post \<Longrightarrow> hooks_pass pre (shared s) = Some st \<Longrightarrow>
   (snd h st = (Some (AnException (PyErr c m)), st') \<longrightarrow>
      lifespan L (''lifespan.startup'' # evs) s =
        s\<lparr>returned := True, pending_events := evs, shared := st',
          sent := sent s @ [StartupFailed (c @ '': '' @ m)],
          hook_log := hook_log s @ map fst pre @ [fst h]\<rparr> \<and>
      the_app (lifespan L (''lifespan.startup'' # evs) s) = the_app s \<and>
      StartupComplete \<notin>
        set (drop (length (sent s)) (sent (lifespan L (''lifespan.startup'' # evs) s)))) \<and>
   (snd h st = (Some (ABaseException e), st') \<longrightarrow>
      lifespan L (''lifespan.startup'' # evs) s =
        s\<lparr>escaped := Some e, pending_events := evs, shared := st',
          hook_log := hook_log s @ map fst pre @ [fst h]\<rparr> \<and>
      the_app (lifespan L (''lifespan.startup'' # evs) s) = the_app s \<and>
      sent (lifespan L (''lifespan.startup'' # evs) s) = sent s)"
  by (simp add: run_hooks_append)

theorem startup_hook_failure_witness:
  "startup example_startup_app =
     [(''connect'', \<lambda>st. (None, st @ [(''db'', PyStr ''open'')]))] @
     (''migrate'', \<lambda>st. (Some (AnException (PyErr ''RuntimeError'' ''no schema'')), st)) # [] \<and>
   lifespan example_libs [''lifespan.startup'', ''lifespan.shutdown'']
       (lifespan_start example_startup_app []) =
     \<lparr>returned = True, escaped = None, pending_events = [''lifespan.shutdown''],
      the_app = example_startup_app, shared = [(''db'', PyStr ''open'')],
      sent = [StartupFailed ''RuntimeError: no schema''],
      hook_log = [''connect'', ''migrate'']\<rparr> \<and>
   map (\<lambda>(k, m). is_compiled k) (routes example_startup_app) = [False] \<and>
   startup example_exit_app =
     [(''connect'', \<lambda>st. (None, st @ [(''db'', PyStr ''open'')]))] @
     (''check'', \<lambda>st. (Some (ABaseException (PyErr ''SystemExit'' ''1'')), st)) # [] \<and>
   lifespan example_libs [''lifespan.startup'', ''lifespan.shutdown'']
       (lifespan_start example_exit_app []) =
     \<lparr>returned = False, escaped = Some (PyErr ''SystemExit'' ''1''),
      pending_events = [''lifespan.shutdown''],
      the_app = example_exit_app, shared = [(''db'', PyStr ''open'')],
      sent = [], hook_log = [''connect'', ''check'']\<rparr>"
proof -
  let ?c = "(''connect'', \<lambda>st :: (string \<times> pyval) list. (None :: raised option, st @ [(''db'', PyStr ''open'')]))"
  let ?m = "(''migrate'', \<lambda>st :: (string \<times> pyval) list.
              (Some (AnException (PyErr ''RuntimeError'' ''no schema'')), st))"
  let ?x = "(''check'', \<lambda>st :: (string \<times> pyval) list.
              (Some (ABaseException (PyErr ''SystemExit'' ''1'')), st))"
  have s: "startup (the_app (lifespan_start example_startup_app [])) = [?c] @ ?m # []"
    by (simp add: example_startup_app_def lifespan_start_def App_startup_def App_route_def
        App_init_def)
  have p: "hooks_pass [?c] (shared (lifespan_start example_startup_app []))
      = Some [(''db'', PyStr ''open'')]"
    by (simp add: lifespan_start_def)
  have f: "snd ?m [(''db'', PyStr ''open'')]
      = (Some (AnException (PyErr ''RuntimeError'' ''no schema'')), [(''db'', PyStr ''open'')])"
    by simp
  have r: "map (\<lambda>(k, m). is_compiled k) (routes example_startup_app) = [False]"
    by (simp add: example_startup_app_def App_startup_def App_route_def App_init_def)
  have s': "startup (the_app (lifespan_start example_exit_app [])) = [?c] @ ?x # []"
    by (simp add: example_exit_app_def lifespan_start_def App_startup_def App_route_def
        App_init_def)
  have p': "hooks_pass [?c] (shared (lifespan_start example_exit_app []))
      = Some [(''db'', PyStr ''open'')]"
    by (simp add: lifespan_start_def)
  have f': "snd ?x [(''db'', PyStr ''open'')]
      = (Some (ABaseException (PyErr ''SystemExit'' ''1'')), [(''db'', PyStr ''open'')])"
    by simp
  have a: "lifespan example_libs [''lifespan.startup'', ''lifespan.shutdown'']
       (lifespan_start example_startup_app []) =
     \<lparr>returned = True, escaped = None, pending_events = [''lifespan.shutdown''],
      the_app = example_startup_app, shared = [(''db'', PyStr ''open'')],
      sent = [StartupFailed ''RuntimeError: no schema''],
      hook_log = [''connect'', ''migrate'']\<rparr>"
    using startup_hook_failure [OF s p, THEN conjunct1, rule_format, OF f, THEN conjunct1,
        of example_libs "[''lifespan.shutdown'']"]
    by (simp add: lifespan_start_def)
  have b: "lifespan example_libs [''lifespan.startup'', ''lifespan.shutdown'']
       (lifespan_start example_exit_app []) =
     \<lparr>returned = False, escaped = Some (PyErr ''SystemExit'' ''1''),
      pending_events = [''lifespan.shutdown''],
      the_app = example_exit_app, shared = [(''db'', PyStr ''open'')],
      sent = [], hook_log = [''connect'', ''check'']\<rparr>"
    using startup_hook_failure [OF s' p', THEN conjunct2, rule_format, OF f', THEN conjunct1,
        of example_libs "[''lifespan.shutdown'']"]
    by (simp add: lifespan_start_def)
  have s0: "startup example_startup_app = [?c] @ ?m # []"
    using s by (simp add: lifespan_start_def)
  have s0': "startup example_exit_app = [?c] @ ?x # []"
    using s' by (simp add: lifespan_start_def)
  show ?thesis
    by (intro conjI s0 a r s0' b)
qed

section \<open>Properties of the http branch\<close>

lemma run_before_append:
  "before_pass pre req = Some req' \<Longrightarrow>
     run_before L (pre @ rest) req w = run_before L rest req' (w\<lparr>calls := calls w @ map fst pre\<rparr>)"
  by (induction pre arbitrary: req w)
     (auto simp: and_then_def call_handler_def split: prod.splits sum.splits if_splits)

lemma run_after_pass:
  "after_pass hs resp req = Some (resp', req') \<Longrightarrow>
     run_after L hs resp req w = (Done resp', req', w\<lparr>calls := calls w @ map fst hs\<rparr>)"
  by (induction hs arbitrary: resp req w)
     (auto split: prod.splits sum.splits if_splits)

lemma run_before_veto:
  "before_pass pre req = Some req' \<Longrightarrow> snd h req' = (Inr v, req'') \<Longrightarrow> truthy v \<Longrightarrow>
   from_any L v = Inr r \<Longrightarrow>
   run_before L (pre @ h # post) req w =
     (Raise (RaisedResponse r), req'', w\<lparr>calls := calls w @ map fst pre @ [fst h]\<rparr>)"
  by (simp add: run_before_append and_then_def call_handler_def raise_from_any_def)

lemma dispatch_skip:
  "list_all (\<lambda>(k, m). is_compiled k \<and> key_match k (path req) = None) pre \<Longrightarrow>
     dispatch L (pre @ rest) req w = dispatch L rest req w"
proof (induction pre)
  case Nil
  then show ?case by simp
next
  case (Cons p pre)
  obtain k m where p: "p = (k, m)" by (cases p)
  from Cons show ?case
    by (cases k) (simp_all add: p)
qed

lemma form_loop_calls:
  "form_loop L mx fp req w evs = (x, req', w') \<Longrightarrow> calls w' = calls w"
  by (induction evs arbitrary: fp req) (auto split: prod.splits sum.splits if_splits)

lemma parse_request_calls:
  "parse_request L a sc req w = (x, req', w') \<Longrightarrow> calls w' = calls w"
  by (auto simp: parse_request_def raise_in_def decode_content_def and_then_def
      split: sum.splits option.splits decoder.splits prod.splits outcome.splits exn.splits if_splits
      dest: form_loop_calls)

lemma list_all_both:
  "list_all (\<lambda>(k, m). is_compiled k) rs \<Longrightarrow>
   list_all (\<lambda>(k, m). key_match k p = None) rs \<Longrightarrow>
   list_all (\<lambda>(k, m). is_compiled k \<and> key_match k p = None) rs"
  by (induction rs) auto

lemma dispatch_no_match:
  "list_all (\<lambda>(k, m). is_compiled k) rs \<Longrightarrow>
   list_all (\<lambda>(k, m). key_match k (path req) = None) rs \<Longrightarrow>
   \<exists>r. dispatch L rs req w = (Done r, req, w) \<and> status r = 404"
  using dispatch_skip [of req rs L "[]" w] list_all_both [of rs "path req"]
  by (simp add: Response_init_plain)

lemma dispatch_first_match:
  assumes "list_all (\<lambda>(k, m). is_compiled k) (pre @ (key, ms) # post)"
    and "list_all (\<lambda>(k, m). key_match k (path req) = None) pre"
    and "key_match key (path req) = Some groups"
  shows "dispatch L (pre @ (key, ms) # post) req w =
     (case map_of ms (method req) of
        Some func \<Rightarrow>
          and_then (call_handler func (req\<lparr>params := groups\<rparr>) w)
            (\<lambda>ret req' w'.
               (case from_any L ret of
                  Inl e \<Rightarrow> (Raise (RaisedError e), req', w')
                | Inr r \<Rightarrow> (Done r, req', w')))
      | None \<Rightarrow>
          (case Response_init L 405 ArgNone [] [] of
             Inl e \<Rightarrow> (Raise (RaisedError e), req\<lparr>params := groups\<rparr>, w)
           | Inr r \<Rightarrow>
               (Done (r\<lparr>headers := MultiDict_setitem (headers r) ''allow''
                                     (PyStr (join '', '' (map fst ms)))\<rparr>),
                req\<lparr>params := groups\<rparr>, w)))"
proof -
  have "list_all (\<lambda>(k, m). is_compiled k \<and> key_match k (path req) = None) pre"
    using assms(1,2) by (simp add: list_all_both)
  then have "dispatch L (pre @ (key, ms) # post) req w = dispatch L ((key, ms) # post) req w"
    by (rule dispatch_skip)
  moreover obtain s p where "key = Compiled s p"
    using assms(3) by (cases key) simp_all
  ultimately show ?thesis
    using assms(3) by simp
qed

subsection \<open>Registration and the route table\<close>

lemma first_seen_Nil: "first_seen [] = []"
  by (simp add: first_seen_def)

lemma first_seen_snoc:
  "first_seen (xs @ [x]) =
     (if x \<in> set (first_seen xs) then first_seen xs else first_seen xs @ [x])"
  by (simp add: first_seen_def)

lemma set_first_seen: "set (first_seen xs) = set xs"
  by (induction xs rule: rev_induct) (auto simp: first_seen_Nil first_seen_snoc)

lemma distinct_first_seen: "distinct (first_seen xs)"
  by (induction xs rule: rev_induct) (auto simp: first_seen_Nil first_seen_snoc)

lemma first_seen_append: "\<exists>rest. first_seen (xs @ ys) = first_seen xs @ rest"
proof (induction ys rule: rev_induct)
  case Nil
  then show ?case by simp
next
  case (snoc y ys)
  then obtain rest where r: "first_seen (xs @ ys) = first_seen xs @ rest"
    by blast
  have "first_seen (xs @ ys @ [y]) = first_seen ((xs @ ys) @ [y])"
    by simp
  also have "\<dots> = (if y \<in> set (first_seen (xs @ ys)) then first_seen (xs @ ys)
                    else first_seen (xs @ ys) @ [y])"
    by (rule first_seen_snoc)
  finally show ?case
    using r by auto
qed

lemma first_seen_split:
  assumes "p \<notin> set xs"
  shows "\<exists>rest. first_seen (xs @ p # ys) = first_seen xs @ p # rest"
proof -
  obtain rest where "first_seen ((xs @ [p]) @ ys) = first_seen (xs @ [p]) @ rest"
    using first_seen_append [of "xs @ [p]" ys] by blast
  with assms show ?thesis
    by (simp add: first_seen_snoc set_first_seen)
qed

lemma map_of_fold_dict_set:
  "map_of (fold (\<lambda>(k, v) d. dict_set k v d) items d) = map_of (rev items @ d)"
  by (induction items rule: rev_induct) (auto simp: map_of_dict_set)

lemma keys_fold_dict_set:
  "map fst (fold (\<lambda>(k, v) d. dict_set k v d) items []) = first_seen (map fst items)"
proof (induction items rule: rev_induct)
  case Nil
  show ?case by (simp add: first_seen_Nil)
next
  case (snoc x items)
  obtain k v where x: "x = (k, v)" by (cases x)
  let ?d = "fold (\<lambda>(k, v) d. dict_set k v d) items []"
  have "k \<in> fst ` set ?d \<longleftrightarrow> k \<in> set (first_seen (map fst items))"
    using snoc by (metis set_map)
  with snoc show ?case
    by (simp add: x keys_dict_set first_seen_snoc)
qed

lemma registered_methods_snoc:
  "registered_methods q (regs @ [(p, ms, f)]) =
     registered_methods q regs @ (if p = q then map (\<lambda>m. (m, f)) ms else [])"
  by (simp add: registered_methods_def)

lemma registered_methods_absent:
  "q \<notin> fst ` set regs \<Longrightarrow> registered_methods q regs = []"
  by (induction regs) (auto simp: registered_methods_def)

lemma routes_register_map:
  "distinct qs \<Longrightarrow>
   routes_register p items (map (\<lambda>q. (Uncompiled q, g q)) qs) =
     (if p \<in> set qs
      then map (\<lambda>q. (Uncompiled q,
                 if q = p then fold (\<lambda>(k, v) d. dict_set k v d) items (g q) else g q)) qs
      else map (\<lambda>q. (Uncompiled q, g q)) qs @
           [(Uncompiled p, fold (\<lambda>(k, v) d. dict_set k v d) items [])])"
  by (induction qs) auto

lemma register_all_snoc:
  "register_all (regs @ [(p, ms, f)]) a = App_route (register_all regs a) p ms f"
  by (simp add: register_all_def)

lemma register_all_startup: "startup (register_all regs a) = startup a"
  by (induction regs rule: rev_induct) (auto simp: register_all_def App_route_def)

lemma routes_register_all:
  "routes a = [] \<Longrightarrow>
   routes (register_all regs a) =
     map (\<lambda>q. (Uncompiled q, dict_of (registered_methods q regs))) (first_seen (map fst regs))"
proof (induction regs rule: rev_induct)
  case Nil
  then show ?case by (simp add: register_all_def first_seen_Nil)
next
  case (snoc x regs)
  obtain p ms f where x: "x = (p, ms, f)" by (cases x)
  let ?qs = "first_seen (map fst regs)"
  let ?items = "map (\<lambda>m. (m, f)) ms"
  have ih: "routes (register_all regs a) =
      map (\<lambda>q. (Uncompiled q, dict_of (registered_methods q regs))) ?qs"
    using snoc by simp
  have step: "routes (register_all (regs @ [(p, ms, f)]) a) =
      routes_register p ?items (map (\<lambda>q. (Uncompiled q, dict_of (registered_methods q regs))) ?qs)"
    by (simp add: register_all_snoc App_route_def ih)
  show ?case
  proof (cases "p \<in> set ?qs")
    case True
    then show ?thesis
      by (simp add: step routes_register_map distinct_first_seen x first_seen_snoc
          registered_methods_snoc dict_of_def)
  next
    case False
    then have "p \<notin> fst ` set regs"
      by (simp add: set_first_seen)
    then have "registered_methods p regs = []"
      by (rule registered_methods_absent)
    with False show ?thesis
      by (auto simp add: step routes_register_map distinct_first_seen x first_seen_snoc
          registered_methods_snoc dict_of_def)
  qed
qed

lemma routes_store_new:
  "q \<notin> set qs \<Longrightarrow>
   routes_store (Compiled q pq) t (map (\<lambda>q. (Compiled q (pat q), g q)) qs) =
     map (\<lambda>q. (Compiled q (pat q), g q)) qs @ [(Compiled q pq, t)]"
  by (induction qs) auto

lemma compile_routes_map:
  "distinct (qs' @ qs) \<Longrightarrow> \<forall>q \<in> set qs. re_compile L q = Inr (pat q) \<Longrightarrow>
   compile_routes L (map (\<lambda>q. (Uncompiled q, g q)) qs)
       (map (\<lambda>q. (Compiled q (pat q), g q)) qs') =
     Inr (map (\<lambda>q. (Compiled q (pat q), g q)) (qs' @ qs))"
proof (induction qs arbitrary: qs')
  case Nil
  then show ?case by simp
next
  case (Cons q qs)
  have st: "routes_store (Compiled q (pat q)) (g q) (map (\<lambda>q. (Compiled q (pat q), g q)) qs') =
      map (\<lambda>q. (Compiled q (pat q), g q)) (qs' @ [q])"
    using Cons.prems(1) by (simp add: routes_store_new)
  have "compile_routes L (map (\<lambda>q. (Uncompiled q, g q)) qs)
       (map (\<lambda>q. (Compiled q (pat q), g q)) (qs' @ [q])) =
     Inr (map (\<lambda>q. (Compiled q (pat q), g q)) ((qs' @ [q]) @ qs))"
    using Cons.prems by (intro Cons.IH) auto
  with Cons.prems(2) st show ?case
    by (simp add: compile_key_def)
qed

lemma started_routes:
  assumes "\<forall>p \<in> fst ` set regs. re_compile L p = Inr (pat p)"
  shows "routes (the_app (lifespan L [''lifespan.startup'']
                   (lifespan_start (register_all regs App_init) st))) =
     map (\<lambda>q. (Compiled q (pat q), dict_of (registered_methods q regs)))
       (first_seen (map fst regs))"
proof -
  let ?qs = "first_seen (map fst regs)"
  let ?g = "\<lambda>q. dict_of (registered_methods q regs)"
  have r: "routes (register_all regs App_init) = map (\<lambda>q. (Uncompiled q, ?g q)) ?qs"
    by (rule routes_register_all) (simp add: App_init_def)
  have "compile_routes L (map (\<lambda>q. (Uncompiled q, ?g q)) ?qs)
       (map (\<lambda>q. (Compiled q (pat q), ?g q)) []) =
     Inr (map (\<lambda>q. (Compiled q (pat q), ?g q)) ([] @ ?qs))"
    using assms by (intro compile_routes_map) (simp_all add: distinct_first_seen set_first_seen)
  then have c: "compile_routes L (routes (register_all regs App_init)) [] =
      Inr (map (\<lambda>q. (Compiled q (pat q), ?g q)) ?qs)"
    by (simp add: r)
  have s: "startup (register_all regs App_init) = []"
    by (simp add: register_all_startup App_init_def)
  show ?thesis
    by (simp add: lifespan_start_def s c)
qed

text \<open>
  C6. Let an application be built by a list of registrations, each of a path, some methods
  and a handler, and let the startup event compile the paths, \<open>pat p\<close> being the pattern of
  the path \<open>p\<close>. Then every key of the route table is compiled, and for every request:
  when no registered path matches the path of the request, the response is a 404 and the
  request is left as it was; when the registration of \<open>p\<close> is the first whose pattern
  matches, the paths registered before it not matching, the groups of this match become
  the parameters of the request, and either the registrations give \<open>p\<close> no handler for the
  method of the request, and the response is a 405 whose \<^verbatim>\<open>allow\<close> header lists the methods
  registered for \<open>p\<close>, in the order of their first registration, or the handler that they
  give, the last one registered for the method, is the one handler called, and the response
  is what \<^verbatim>\<open>from_any\<close> makes of its result.
\<close>

theorem route_dispatch:
  "\<forall>p \<in> fst ` set regs. re_compile L p = Inr (pat p) \<Longrightarrow>
   a = the_app (lifespan L [''lifespan.startup'']
                  (lifespan_start (register_all regs App_init) st)) \<Longrightarrow>
   list_all (\<lambda>(k, m). is_compiled k) (routes a) \<and>
   ((\<forall>q \<in> fst ` set regs. pat q (path req) = None) \<longrightarrow>
      (\<exists>r. dispatch L (routes a) req w = (Done r, req, w) \<and> status r = 404)) \<and>
   (regs = pre @ (p, ms, f) # post \<and>
    (\<forall>q \<in> fst ` set pre. pat q (path req) = None) \<and>
    pat p (path req) = Some groups \<longrightarrow>
      (registered_handler p (method req) regs = None \<longrightarrow>
         (\<exists>r. dispatch L (routes a) req w = (Done r, req\<lparr>params := groups\<rparr>, w) \<and>
              status r = 405 \<and>
              MultiDict__get (headers r) ''allow'' [] =
                [PyStr (join '', '' (first_seen (map fst (registered_methods p regs))))])) \<and>
      (registered_handler p (method req) regs = Some func \<and>
       snd func (req\<lparr>params := groups\<rparr>) = (Inr ret, req') \<and> from_any L ret = Inr r' \<longrightarrow>
         dispatch L (routes a) req w = (Done r', req', w\<lparr>calls := calls w @ [fst func]\<rparr>)))"
proof -
  assume comp: "\<forall>p \<in> fst ` set regs. re_compile L p = Inr (pat p)"
    and a: "a = the_app (lifespan L [''lifespan.startup'']
                  (lifespan_start (register_all regs App_init) st))"
  let ?C = "\<lambda>q. (Compiled q (pat q), dict_of (registered_methods q regs))"
  have rs: "routes a = map ?C (first_seen (map fst regs))"
    unfolding a using comp by (rule started_routes)
  have c: "list_all (\<lambda>(k, m). is_compiled k) (routes a)"
    by (simp add: rs list_all_iff)
  have nf: "\<exists>r. dispatch L (routes a) req w = (Done r, req, w) \<and> status r = 404"
    if "\<forall>q \<in> fst ` set regs. pat q (path req) = None"
  proof -
    have "list_all (\<lambda>(k, m). key_match k (path req) = None) (routes a)"
      using that by (simp add: rs list_all_iff set_first_seen)
    with c show ?thesis
      by (rule dispatch_no_match)
  qed
  have found: "(registered_handler p (method req) regs = None \<longrightarrow>
         (\<exists>r. dispatch L (routes a) req w = (Done r, req\<lparr>params := groups\<rparr>, w) \<and>
              status r = 405 \<and>
              MultiDict__get (headers r) ''allow'' [] =
                [PyStr (join '', '' (first_seen (map fst (registered_methods p regs))))])) \<and>
      (registered_handler p (method req) regs = Some func \<and>
       snd func (req\<lparr>params := groups\<rparr>) = (Inr ret, req') \<and> from_any L ret = Inr r' \<longrightarrow>
         dispatch L (routes a) req w = (Done r', req', w\<lparr>calls := calls w @ [fst func]\<rparr>))"
    if m: "regs = pre @ (p, ms, f) # post \<and>
      (\<forall>q \<in> fst ` set pre. pat q (path req) = None) \<and> pat p (path req) = Some groups"
  proof -
    have "p \<notin> set (map fst pre)"
      using m by auto
    then obtain rest where
      "first_seen (map fst pre @ p # map fst post) = first_seen (map fst pre) @ p # rest"
      using first_seen_split [of p "map fst pre" "map fst post"] by blast
    then have fs: "first_seen (map fst regs) = first_seen (map fst pre) @ p # rest"
      using m by simp
    let ?pre = "map ?C (first_seen (map fst pre))"
    let ?ms = "dict_of (registered_methods p regs)"
    have tbl: "routes a = ?pre @ (Compiled p (pat p), ?ms) # map ?C rest"
      by (simp add: rs fs)
    have nm: "list_all (\<lambda>(k, m). key_match k (path req) = None) ?pre"
      using m by (simp add: list_all_iff set_first_seen)
    have km: "key_match (Compiled p (pat p)) (path req) = Some groups"
      using m by simp
    have d: "dispatch L (routes a) req w =
     (case map_of ?ms (method req) of
        Some func \<Rightarrow>
          and_then (call_handler func (req\<lparr>params := groups\<rparr>) w)
            (\<lambda>ret req' w'.
               (case from_any L ret of
                  Inl e \<Rightarrow> (Raise (RaisedError e), req', w')
                | Inr r \<Rightarrow> (Done r, req', w')))
      | None \<Rightarrow>
          (case Response_init L 405 ArgNone [] [] of
             Inl e \<Rightarrow> (Raise (RaisedError e), req\<lparr>params := groups\<rparr>, w)
           | Inr r \<Rightarrow>
               (Done (r\<lparr>headers := MultiDict_setitem (headers r) ''allow''
                                     (PyStr (join '', '' (map fst ?ms)))\<rparr>),
                req\<lparr>params := groups\<rparr>, w)))"
      using c nm km unfolding tbl by (rule dispatch_first_match)
    have h: "map_of ?ms (method req) = registered_handler p (method req) regs"
      by (simp add: dict_of_def map_of_fold_dict_set registered_handler_def)
    have k: "map fst ?ms = first_seen (map fst (registered_methods p regs))"
      by (simp add: dict_of_def keys_fold_dict_set)
    show ?thesis
      by (simp add: d h k Response_init_plain MultiDict__get_def map_of_setitem
          and_then_def call_handler_def)
  qed
  from c nf found show ?thesis
    by blast
qed

lemma run_after_append:
  "after_pass apre resp req = Some (resp', req') \<Longrightarrow>
     run_after L (apre @ rest) resp req w =
       run_after L rest resp' req' (w\<lparr>calls := calls w @ map fst apre\<rparr>)"
  by (induction apre arbitrary: resp req w)
     (auto split: prod.splits sum.splits if_splits)

lemma run_after_calls:
  "run_after L hs resp req w = (x, req', w') \<Longrightarrow> \<exists>rest. calls w' = calls w @ rest"
proof (induction hs arbitrary: resp req w)
  case Nil
  then show ?case by simp
next
  case (Cons g hs)
  obtain y rq rs where g: "snd g req resp = (y, rq, rs)"
    by (cases "snd g req resp") auto
  show ?case
  proof (cases y)
    case (Inl e)
    with Cons.prems g show ?thesis by auto
  next
    case (Inr ret)
    show ?thesis
    proof (cases "truthy ret")
      case True
      with Cons.prems g Inr show ?thesis by auto
    next
      case False
      with Cons.prems g Inr
      have "run_after L hs rs rq (w\<lparr>calls := calls w @ [fst g]\<rparr>) = (x, req', w')"
        by simp
      from Cons.IH [OF this] show ?thesis by auto
    qed
  qed
qed

lemma run_after_first_call:
  "\<exists>x rq w' rest. run_after L (g # hs) resp req w = (x, rq, w') \<and>
      calls w' = calls w @ fst g # rest"
proof -
  obtain y rq rs where g: "snd g req resp = (y, rq, rs)"
    by (cases "snd g req resp") auto
  show ?thesis
  proof (cases y)
    case (Inl e)
    with g show ?thesis by simp
  next
    case (Inr ret)
    show ?thesis
    proof (cases "truthy ret")
      case True
      with g Inr show ?thesis by simp
    next
      case False
      obtain x rq' w' where r: "run_after L hs rs rq (w\<lparr>calls := calls w @ [fst g]\<rparr>) = (x, rq', w')"
        by (cases "run_after L hs rs rq (w\<lparr>calls := calls w @ [fst g]\<rparr>)") auto
      from run_after_calls [OF r] obtain rest where "calls w' = calls w @ fst g # rest"
        by auto
      with g Inr False r show ?thesis by simp
    qed
  qed
qed

lemma catch_response_world:
  "\<exists>y. catch_response (x, rq, w) = (y, rq, w)"
  by (auto simp: catch_response_def split: outcome.splits exn.splits)

text \<open>
  C7, amended. Let the request be parsed, let the before-hooks that come first each
  return a value that is not true, and let the next one, \<open>h\<close>, return a true value \<open>v\<close>
  that \<^verbatim>\<open>from_any\<close> coerces to the response \<open>r\<close>. Then the first \<^verbatim>\<open>try\<close> block ends with \<open>r\<close>
  raised, and the calls made so far are those hooks and \<open>h\<close>: no later before-hook and no
  route handler is called. The after-hooks then run on \<open>r\<close>; when each of them returns a
  value that is not true, all of them are called and the response is \<open>r\<close> as they leave it.
  In general an after-hook \<open>g\<close> is called, on the response as the after-hooks before it
  leave it, when each of those has returned, without raising, a value that is not true:
  the stage goes on from \<open>g\<close>, and the calls are those of the before-hooks up to \<open>h\<close>, of
  the after-hooks before \<open>g\<close>, of \<open>g\<close>, and what follows.
\<close>

theorem before_hook_veto:
  "scope_request sc = Inr req0 \<Longrightarrow> parse_request L a sc req0 w = (Done (), req1, w1) \<Longrightarrow>
   before a = pre @ h # post \<Longrightarrow> before_pass pre req1 = Some req2 \<Longrightarrow>
   snd h req2 = (Inr v, req3) \<Longrightarrow> truthy v \<Longrightarrow> from_any L v = Inr r \<Longrightarrow>
   try_block L a sc req0 w =
     (Raise (RaisedResponse r), req3, w1\<lparr>calls := calls w @ map fst pre @ [fst h]\<rparr>) \<and>
   http_response L a sc w =
     (case catch_response
             (run_after L (after a) r req3 (w1\<lparr>calls := calls w @ map fst pre @ [fst h]\<rparr>)) of
        (x, rq, w') \<Rightarrow> (x, Some rq, w')) \<and>
   (after_pass (after a) r req3 = Some (r', req4) \<longrightarrow>
      http_response L a sc w =
        (Done r', Some req4,
         w1\<lparr>calls := calls w @ map fst pre @ [fst h] @ map fst (after a)\<rparr>)) \<and>
   (after a = apre @ g # apost \<and> after_pass apre r req3 = Some (r1, rq1) \<longrightarrow>
      http_response L a sc w =
        (case catch_response
                (run_after L (g # apost) r1 rq1
                   (w1\<lparr>calls := calls w @ map fst pre @ [fst h] @ map fst apre\<rparr>)) of
           (x, rq, w') \<Rightarrow> (x, Some rq, w')) \<and>
      (\<exists>x rq w' rest. http_response L a sc w = (x, Some rq, w') \<and>
          calls w' = calls w @ map fst pre @ [fst h] @ map fst apre @ fst g # rest))"
proof -
  assume sr: "scope_request sc = Inr req0"
    and pr: "parse_request L a sc req0 w = (Done (), req1, w1)"
    and b: "before a = pre @ h # post"
    and pass: "before_pass pre req1 = Some req2"
    and hv: "snd h req2 = (Inr v, req3)" "truthy v" "from_any L v = Inr r"
  let ?w = "w1\<lparr>calls := calls w @ map fst pre @ [fst h]\<rparr>"
  have cw: "calls w1 = calls w"
    using pr by (rule parse_request_calls)
  have rb: "run_before L (before a) req1 w1 = (Raise (RaisedResponse r), req3, ?w)"
    using run_before_veto [OF pass hv, of post w1] b cw by simp
  have tb: "try_block L a sc req0 w = (Raise (RaisedResponse r), req3, ?w)"
    by (simp add: try_block_def pr rb and_then_def)
  have hr: "http_response L a sc w =
     (case catch_response (run_after L (after a) r req3 ?w) of
        (x, rq, w') \<Rightarrow> (x, Some rq, w'))"
    by (simp add: http_response_def sr tb catch_response_def and_then_def)
  have all: "after_pass (after a) r req3 = Some (r', req4) \<Longrightarrow>
      http_response L a sc w =
        (Done r', Some req4,
         w1\<lparr>calls := calls w @ map fst pre @ [fst h] @ map fst (after a)\<rparr>)"
    by (simp add: hr run_after_pass catch_response_def)
  have part: "http_response L a sc w =
        (case catch_response
                (run_after L (g # apost) r1 rq1
                   (w1\<lparr>calls := calls w @ map fst pre @ [fst h] @ map fst apre\<rparr>)) of
           (x, rq, w') \<Rightarrow> (x, Some rq, w')) \<and>
      (\<exists>x rq w' rest. http_response L a sc w = (x, Some rq, w') \<and>
          calls w' = calls w @ map fst pre @ [fst h] @ map fst apre @ fst g # rest)"
    if af: "after a = apre @ g # apost" and ap: "after_pass apre r req3 = Some (r1, rq1)"
  proof -
    let ?w2 = "w1\<lparr>calls := calls w @ map fst pre @ [fst h] @ map fst apre\<rparr>"
    have ra: "run_after L (after a) r req3 ?w = run_after L (g # apost) r1 rq1 ?w2"
      using run_after_append [OF ap, of L "g # apost" ?w] af by simp
    have eq: "http_response L a sc w =
        (case catch_response (run_after L (g # apost) r1 rq1 ?w2) of
           (x, rq, w') \<Rightarrow> (x, Some rq, w'))"
      by (simp add: hr ra)
    obtain x rq w' rest where
      run: "run_after L (g # apost) r1 rq1 ?w2 = (x, rq, w')"
      and cs: "calls w' = calls ?w2 @ fst g # rest"
      using run_after_first_call [of L g apost r1 rq1 ?w2] by blast
    obtain y where "catch_response (x, rq, w') = (y, rq, w')"
      using catch_response_world [of x rq w'] by blast
    with eq run cs
    have "http_response L a sc w = (y, Some rq, w') \<and>
          calls w' = calls w @ map fst pre @ [fst h] @ map fst apre @ fst g # rest"
      by simp
    with eq show ?thesis by blast
  qed
  from tb hr all part show ?thesis by blast
qed

lemma store_fields_body: "req_body (store_fields fs req) = req_body req"
  by (simp add: store_fields_def)

lemma form_loop_no_response:
  "fst (form_loop L mx fp req w evs) \<noteq> Raise (RaisedResponse r)"
  by (induction evs arbitrary: fp req)
     (auto simp: raise_named_def uhttp_globals_def split: prod.splits sum.splits)

lemma form_loop_ignores_limit:
  "req_body req = [] \<Longrightarrow> 0 \<le> mx \<Longrightarrow> 0 \<le> mx' \<Longrightarrow>
     form_loop L mx fp req w evs = form_loop L mx' fp req w evs"
  by (induction evs arbitrary: fp req)
     (auto simp: store_fields_body split: prod.splits sum.splits)

section \<open>The example application\<close>

lemma lower_ct: "lower ''Content-Type'' = ''content-type''"
  by (simp add: lower_def lower_char_def char_of_eq_iff)

lemma example_app_eq:
  "example_app v lim =
     \<lparr>routes = [(Compiled ''/'' (example_pattern ''/''),
                 [(''GET'', constant_handler ''index'' (Value (PyStr ''index page''))),
                  (''POST'', constant_handler ''index'' (Value (PyStr ''index page'')))])],
      startup = [], shutdown = [],
      before = [constant_handler ''guard'' v],
      after = [constant_after ''log'' (Value PyNone)],
      max_content = lim\<rparr>"
  by (simp add: example_app_def lifespan_start_def App_after_def App_before_def App_route_def
        App_init_def compile_key_def example_libs_def)

lemma decode_headers_plain:
  "decode_headers example_libs [(''Content-Type'', ''text/plain'')] = Inr [(''content-type'', [PyList [PyStr ''text/plain'']])]"
  by (simp add: decode_headers_def is_ascii_def Headers_init_def MultiDict_init_def
        Headers_append_def Headers__setdefault_def MultiDict_setdefault_def dict_setdefault_def
        py_last_def lower_ct example_libs_def)

lemma decode_headers_form:
  "decode_headers example_libs [(''Content-Type'', ''application/x-www-form-urlencoded'')]
     = Inr [(''content-type'', [PyList [PyStr ''application/x-www-form-urlencoded'']])]"
  by (simp add: decode_headers_def is_ascii_def Headers_init_def MultiDict_init_def
        Headers_append_def Headers__setdefault_def MultiDict_setdefault_def dict_setdefault_def
        py_last_def lower_ct example_libs_def)

lemma scope_request_example:
  "scope_request (example_scope m ''/'' ct) = Inr ((example_request m ct)\<lparr>req_headers := []\<rparr>)"
  by (simp add: scope_request_eq example_scope_def example_request_def unquote_bytes_def
        parse_qsl_def parse_field_def MultiDict_sets_def)

lemma cookie_load_example: "cookie_load example_libs raw = Some []"
  by (simp add: example_libs_def)

lemma options_header_plain: "parse_options_header example_libs (PyStr ''text/plain'') = Inr ''text/plain''"
  by (simp add: example_libs_def lower_def lower_char_def)

lemma options_header_form:
  "parse_options_header example_libs (PyStr ''application/x-www-form-urlencoded'')
      = Inr ''application/x-www-form-urlencoded''"
  by (simp add: example_libs_def lower_def lower_char_def)

lemma parse_request_plain:
  "parse_request example_libs a (example_scope m ''/'' ''text/plain'')
       ((example_request m ''text/plain'')\<lparr>req_headers := []\<rparr>) w =
     (Done (), example_request m ''text/plain'', w)"
  by (simp add: parse_request_def example_scope_def decode_headers_plain Headers_get_def
        MultiDict_get_def py_item_last_def
        lower_def lower_char_def py_last_def decode_content_def content_decoder_def
        example_request_def cookie_load_example options_header_plain)

lemma create_parser: "create_form_parser example_libs h = Inr []"
  by (simp add: example_libs_def)

lemma write_parser: "form_write example_libs fp data = ([], Inr (fp @ data))"
  by (simp add: example_libs_def)

lemma finalize_parser:
  "form_finalize example_libs ''a=1&b=2'' = ([(''a'', PyStr ''1''), (''b'', PyStr ''2'')], None)"
  by (simp add: example_libs_def parse_qsl_def parse_field_def split_once_def unquote_def
        plus_to_space_def)

lemma parse_request_form:
  "parse_request example_libs (example_app v 3)
       (example_scope m ''/'' ''application/x-www-form-urlencoded'')
       ((example_request m ''application/x-www-form-urlencoded'')\<lparr>req_headers := []\<rparr>)
       (example_world
          [\<lparr>ev_body = ''a=1&'', more_body = True\<rparr>, \<lparr>ev_body = ''b=2'', more_body = False\<rparr>]) =
     (Done (),
      (example_request m ''application/x-www-form-urlencoded'')
        \<lparr>form := [(''a'', [PyStr ''1'']), (''b'', [PyStr ''2''])]\<rparr>,
      example_world [])"
proof -
  have cd: "content_decoder ''application/x-www-form-urlencoded'' = FormDecoder"
    by (simp add: content_decoder_def)
  show ?thesis
    by (simp add: parse_request_def example_scope_def decode_headers_form Headers_get_def
        MultiDict_get_def py_item_last_def
        lower_def lower_char_def py_last_def cookie_load_example options_header_form
        decode_content_def cd create_parser
        example_app_eq example_world_def example_request_def write_parser and_then_def
        finalize_parser store_fields_def MultiDict_setitem_def dict_setdefault_def)
qed

lemma from_any_index:
  "from_any example_libs (Value (PyStr s)) =
     Inr \<lparr>status = 200, description = ''OK'',
          headers = [(''content-type'', [PyStr ''text/html; charset=utf-8''])],
          cookies = [], body = s\<rparr>"
  by (simp add: Response_init_plain phrase_example_200)

lemma dispatch_example:
  "m = ''GET'' \<or> m = ''POST'' \<Longrightarrow> path req = ''/'' \<Longrightarrow> method req = m \<Longrightarrow>
   dispatch example_libs (routes (example_app v lim)) req w =
     (Done \<lparr>status = 200, description = ''OK'',
            headers = [(''content-type'', [PyStr ''text/html; charset=utf-8''])],
            cookies = [], body = ''index page''\<rparr>,
      req\<lparr>params := []\<rparr>, w\<lparr>calls := calls w @ [''index'']\<rparr>)"
  by (auto simp add: example_app_eq and_then_def call_handler_def constant_handler_def
        Response_init_plain phrase_example_200 example_pattern_def)

lemma run_after_example:
  "run_after example_libs (after (example_app v lim)) resp req w =
     (Done resp, req, w\<lparr>calls := calls w @ [''log'']\<rparr>)"
  by (simp add: example_app_eq constant_after_def)

lemma run_before_falsy:
  "\<not> truthy v \<Longrightarrow>
   run_before example_libs (before (example_app v lim)) req w =
     (Done (), req, w\<lparr>calls := calls w @ [''guard'']\<rparr>)"
  by (simp add: example_app_eq and_then_def call_handler_def constant_handler_def)

text \<open>
  C1. A urlencoded body of seven bytes, in the chunks \<^verbatim>\<open>a=1&\<close> and \<^verbatim>\<open>b=2\<close>, for an application
  whose maximum content size is 3. The loop compares the maximum with the length of
  \<^verbatim>\<open>request.body\<close>, which stays empty, so it stops at no chunk: both chunks are written to
  the parser, both fields reach the form of the request, the route handler is called, and
  the response is its 200, not a 413.
\<close>

theorem oversized_form_body_is_processed:
  "http_response example_libs (example_app (Value PyNone) 3)
     (example_scope ''POST'' ''/'' ''application/x-www-form-urlencoded'')
     (example_world
        [\<lparr>ev_body = ''a=1&'', more_body = True\<rparr>, \<lparr>ev_body = ''b=2'', more_body = False\<rparr>]) =
   (Done \<lparr>status = 200, description = ''OK'',
          headers = [(''content-type'', [PyStr ''text/html; charset=utf-8''])],
          cookies = [], body = ''index page''\<rparr>,
    Some ((example_request ''POST'' ''application/x-www-form-urlencoded'')
            \<lparr>form := [(''a'', [PyStr ''1'']), (''b'', [PyStr ''2''])]\<rparr>),
    \<lparr>inbox = [], outbox = [], calls = [''guard'', ''index'', ''log'']\<rparr>)"
proof -
  let ?rq = "(example_request ''POST'' ''application/x-www-form-urlencoded'')
            \<lparr>form := [(''a'', [PyStr ''1'']), (''b'', [PyStr ''2''])]\<rparr>"
  have p: "path ?rq = ''/''" and m: "method ?rq = ''POST''" and pr: "?rq\<lparr>params := []\<rparr> = ?rq"
    by (simp_all add: example_request_def)
  have d: "dispatch example_libs (routes (example_app (Value PyNone) 3)) ?rq
      (example_world []\<lparr>calls := calls (example_world []) @ [''guard'']\<rparr>) =
     (Done \<lparr>status = 200, description = ''OK'',
            headers = [(''content-type'', [PyStr ''text/html; charset=utf-8''])],
            cookies = [], body = ''index page''\<rparr>,
      ?rq, example_world []\<lparr>calls := [''guard'', ''index'']\<rparr>)"
    using dispatch_example [of "''POST''" ?rq "Value PyNone" 3
        "example_world []\<lparr>calls := calls (example_world []) @ [''guard'']\<rparr>"] p m pr
    by (simp add: example_world_def)
  show ?thesis
    by (simp add: http_response_def scope_request_example try_block_def parse_request_form
        and_then_def run_before_falsy d catch_response_def run_after_example)
       (simp add: example_world_def)
qed

text \<open>
  C7, against the claim as stated: the before-hook \<^verbatim>\<open>guard\<close> returns the empty string, a
  value that is not \<^verbatim>\<open>None\<close>. It is not true, so the pipeline goes on: the route handler
  \<^verbatim>\<open>index\<close> is called and the response is the handler's.
\<close>

theorem falsy_before_hook_counterexample:
  "http_response example_libs (example_app (Value (PyStr [])) 3)
     (example_scope ''GET'' ''/'' ''text/plain'') (example_world []) =
   (Done \<lparr>status = 200, description = ''OK'',
          headers = [(''content-type'', [PyStr ''text/html; charset=utf-8''])],
          cookies = [], body = ''index page''\<rparr>,
    Some (example_request ''GET'' ''text/plain''),
    \<lparr>inbox = [], outbox = [], calls = [''guard'', ''index'', ''log'']\<rparr>)"
proof -
  let ?rq = "example_request ''GET'' ''text/plain''"
  have p: "path ?rq = ''/''" and m: "method ?rq = ''GET''" and pr: "?rq\<lparr>params := []\<rparr> = ?rq"
    by (simp_all add: example_request_def)
  have d: "dispatch example_libs (routes (example_app (Value (PyStr [])) 3)) ?rq
      (example_world []\<lparr>calls := calls (example_world []) @ [''guard'']\<rparr>) =
     (Done \<lparr>status = 200, description = ''OK'',
            headers = [(''content-type'', [PyStr ''text/html; charset=utf-8''])],
            cookies = [], body = ''index page''\<rparr>,
      ?rq, example_world []\<lparr>calls := [''guard'', ''index'']\<rparr>)"
    using dispatch_example [of "''GET''" ?rq "Value (PyStr [])" 3
        "example_world []\<lparr>calls := calls (example_world []) @ [''guard'']\<rparr>"] p m pr
    by (simp add: example_world_def)
  show ?thesis
    by (simp add: http_response_def scope_request_example try_block_def parse_request_plain
        and_then_def run_before_falsy d catch_response_def run_after_example)
       (simp add: example_world_def)
qed

lemma example_veto_app_eq:
  "example_veto_app =
     \<lparr>routes = [(Compiled ''/'' (example_pattern ''/''),
                 [(''GET'', constant_handler ''index'' (Value (PyStr ''index page'')))])],
      startup = [], shutdown = [],
      before = [constant_handler ''auth'' (Value PyNone),
                constant_handler ''guard'' (Value (PyStr ''no'')),
                constant_handler ''late'' (Value (PyStr ''late''))],
      after = [constant_after ''log'' (Value PyNone), constant_after ''metrics'' (Value PyNone)],
      max_content = 1048576\<rparr>"
  by (simp add: example_veto_app_def lifespan_start_def App_after_def App_before_def
        App_route_def App_init_def compile_key_def example_libs_def)

theorem before_hook_veto_witness:
  "scope_request (example_scope ''GET'' ''/'' ''text/plain'')
     = Inr ((example_request ''GET'' ''text/plain'')\<lparr>req_headers := []\<rparr>) \<and>
   parse_request example_libs example_veto_app (example_scope ''GET'' ''/'' ''text/plain'')
       ((example_request ''GET'' ''text/plain'')\<lparr>req_headers := []\<rparr>) (example_world [])
     = (Done (), example_request ''GET'' ''text/plain'', example_world []) \<and>
   before example_veto_app
     = [constant_handler ''auth'' (Value PyNone)] @
       constant_handler ''guard'' (Value (PyStr ''no'')) #
       [constant_handler ''late'' (Value (PyStr ''late''))] \<and>
   before_pass [constant_handler ''auth'' (Value PyNone)] (example_request ''GET'' ''text/plain'')
     = Some (example_request ''GET'' ''text/plain'') \<and>
   truthy (Value (PyStr ''no'')) \<and>
   after example_veto_app
     = [constant_after ''log'' (Value PyNone)] @ constant_after ''metrics'' (Value PyNone) # [] \<and>
   http_response example_libs example_veto_app
       (example_scope ''GET'' ''/'' ''text/plain'') (example_world [])
     = (Done \<lparr>status = 200, description = ''OK'',
              headers = [(''content-type'', [PyStr ''text/html; charset=utf-8''])],
              cookies = [], body = ''no''\<rparr>,
        Some (example_request ''GET'' ''text/plain''),
        \<lparr>inbox = [], outbox = [], calls = [''auth'', ''guard'', ''log'', ''metrics'']\<rparr>) \<and>
   http_response example_libs example_veto_app
       (example_scope ''GET'' ''/'' ''text/plain'') (example_world [])
     = (case catch_response
               (run_after example_libs [constant_after ''metrics'' (Value PyNone)]
                  \<lparr>status = 200, description = ''OK'',
                   headers = [(''content-type'', [PyStr ''text/html; charset=utf-8''])],
                   cookies = [], body = ''no''\<rparr>
                  (example_request ''GET'' ''text/plain'')
                  \<lparr>inbox = [], outbox = [], calls = [''auth'', ''guard'', ''log'']\<rparr>) of
          (x, rq, w') \<Rightarrow> (x, Some rq, w'))"
proof -
  let ?a = "example_veto_app"
  let ?sc = "example_scope ''GET'' ''/'' ''text/plain''"
  let ?rq = "example_request ''GET'' ''text/plain''"
  let ?r = "\<lparr>status = 200, description = ''OK'',
              headers = [(''content-type'', [PyStr ''text/html; charset=utf-8''])],
              cookies = [], body = ''no''\<rparr>"
  let ?auth = "constant_handler ''auth'' (Value PyNone)"
  let ?h = "constant_handler ''guard'' (Value (PyStr ''no''))"
  let ?late = "constant_handler ''late'' (Value (PyStr ''late''))"
  let ?log = "constant_after ''log'' (Value PyNone)"
  let ?met = "constant_after ''metrics'' (Value PyNone)"
  have sr: "scope_request ?sc = Inr (?rq\<lparr>req_headers := []\<rparr>)"
    by (rule scope_request_example)
  have pr: "parse_request example_libs ?a ?sc (?rq\<lparr>req_headers := []\<rparr>) (example_world [])
     = (Done (), ?rq, example_world [])"
    by (rule parse_request_plain)
  have b: "before ?a = [?auth] @ ?h # [?late]"
    by (simp add: example_veto_app_eq)
  have pass: "before_pass [?auth] ?rq = Some ?rq"
    by (simp add: constant_handler_def)
  have hv: "snd ?h ?rq = (Inr (Value (PyStr ''no'')), ?rq)"
    by (simp add: constant_handler_def)
  have t: "truthy (Value (PyStr ''no''))"
    by simp
  have f: "from_any example_libs (Value (PyStr ''no'')) = Inr ?r"
    by (rule from_any_index)
  have af: "after ?a = [?log] @ ?met # []"
    by (simp add: example_veto_app_eq)
  have ap: "after_pass (after ?a) ?r ?rq = Some (?r, ?rq)"
    by (simp add: example_veto_app_eq constant_after_def)
  have ap1: "after_pass [?log] ?r ?rq = Some (?r, ?rq)"
    by (simp add: constant_after_def)
  have names: "map fst (after ?a) = [''log'', ''metrics'']" "fst ?h = ''guard''"
    "fst ?auth = ''auth''" "fst ?log = ''log''"
    by (simp_all add: example_veto_app_eq constant_after_def constant_handler_def)
  have main: "http_response example_libs ?a ?sc (example_world [])
     = (Done ?r, Some ?rq,
        \<lparr>inbox = [], outbox = [], calls = [''auth'', ''guard'', ''log'', ''metrics'']\<rparr>)"
    using before_hook_veto [OF sr pr b pass hv t f, of ?r ?rq,
        THEN conjunct2, THEN conjunct2, THEN conjunct1] ap names
    by (simp add: example_world_def)
  have part: "http_response example_libs ?a ?sc (example_world [])
     = (case catch_response
               (run_after example_libs [?met] ?r ?rq
                  \<lparr>inbox = [], outbox = [], calls = [''auth'', ''guard'', ''log'']\<rparr>) of
          (x, rq, w') \<Rightarrow> (x, Some rq, w'))"
    using before_hook_veto [OF sr pr b pass hv t f, of _ _ "[?log]" ?met "[]" ?r ?rq,
        THEN conjunct2, THEN conjunct2, THEN conjunct2, rule_format, OF conjI [OF af ap1],
        THEN conjunct1] names
    by (simp add: example_world_def)
  show ?thesis
    by (intro conjI sr pr b pass t af main part)
qed

lemma example_compile: "re_compile example_libs p = Inr (example_pattern p)"
  by (simp add: example_libs_def)

lemma example_pattern_root: "example_pattern ''/'' p = (if p = ''/'' then Some [] else None)"
  by (simp add: example_pattern_def)

lemma example_pattern_me: "example_pattern ''/users/me'' p = (if p = ''/users/me'' then Some [] else None)"
  by (simp add: example_pattern_def)

lemma example_pattern_user_me:
  "example_pattern ''/users/(?P<id>.+)'' ''/users/me'' = Some [(''id'', PyStr ''me'')]"
  by (simp add: example_pattern_def)

lemma example_pattern_user_missing:
  "example_pattern ''/users/(?P<id>.+)'' ''/missing'' = None"
  by (simp add: example_pattern_def)

lemma example_registrations_split:
  "example_registrations =
     [(''/'', [''POST''], constant_handler ''create'' (Value (PyStr ''created'')))] @
     (''/users/(?P<id>.+)'', [''GET''], show_user) #
     [(''/'', [''GET''], constant_handler ''index'' (Value (PyStr ''index page''))),
      (''/users/me'', [''GET''], constant_handler ''me'' (Value (PyStr ''my page'')))]"
  by (simp add: example_registrations_def)

lemma example_registrations_head:
  "example_registrations =
     [] @ (''/'', [''POST''], constant_handler ''create'' (Value (PyStr ''created''))) #
     [(''/users/(?P<id>.+)'', [''GET''], show_user),
      (''/'', [''GET''], constant_handler ''index'' (Value (PyStr ''index page''))),
      (''/users/me'', [''GET''], constant_handler ''me'' (Value (PyStr ''my page'')))]"
  by (simp add: example_registrations_def)

lemma example_paths:
  "fst ` set example_registrations = {''/'', ''/users/(?P<id>.+)'', ''/users/me''}"
  by (auto simp add: example_registrations_def)

lemma example_methods_root:
  "registered_methods ''/'' example_registrations =
     [(''POST'', constant_handler ''create'' (Value (PyStr ''created''))),
      (''GET'', constant_handler ''index'' (Value (PyStr ''index page'')))]"
  by (simp add: registered_methods_def example_registrations_def)

lemma example_methods_user:
  "registered_methods ''/users/(?P<id>.+)'' example_registrations = [(''GET'', show_user)]"
  by (simp add: registered_methods_def example_registrations_def)

theorem route_dispatch_witness:
  "example_registrations =
     [(''/'', [''POST''], constant_handler ''create'' (Value (PyStr ''created'')))] @
     (''/users/(?P<id>.+)'', [''GET''], show_user) #
     [(''/'', [''GET''], constant_handler ''index'' (Value (PyStr ''index page''))),
      (''/users/me'', [''GET''], constant_handler ''me'' (Value (PyStr ''my page'')))] \<and>
   example_pattern ''/'' ''/users/me'' = None \<and>
   example_pattern ''/users/(?P<id>.+)'' ''/users/me'' = Some [(''id'', PyStr ''me'')] \<and>
   example_pattern ''/users/me'' ''/users/me'' = Some [] \<and>
   list_all (\<lambda>(k, m). is_compiled k) (routes example_router_app) \<and>
   (\<exists>r. dispatch example_libs (routes example_router_app)
          ((example_request ''GET'' ''text/plain'')\<lparr>path := ''/missing''\<rparr>) (example_world [])
        = (Done r, (example_request ''GET'' ''text/plain'')\<lparr>path := ''/missing''\<rparr>,
           example_world [])
        \<and> status r = 404) \<and>
   dispatch example_libs (routes example_router_app)
       ((example_request ''GET'' ''text/plain'')\<lparr>path := ''/users/me''\<rparr>) (example_world [])
     = (Done \<lparr>status = 200, description = ''OK'',
              headers = [(''content-type'', [PyStr ''text/html; charset=utf-8''])],
              cookies = [], body = ''me''\<rparr>,
        (example_request ''GET'' ''text/plain'')
          \<lparr>path := ''/users/me'', params := [(''id'', PyStr ''me'')]\<rparr>,
        \<lparr>inbox = [], outbox = [], calls = [''show_user'']\<rparr>) \<and>
   (\<exists>r. dispatch example_libs (routes example_router_app)
          (example_request ''PUT'' ''text/plain'') (example_world [])
        = (Done r, example_request ''PUT'' ''text/plain'', example_world [])
        \<and> status r = 405
        \<and> MultiDict__get (headers r) ''allow'' [] = [PyStr ''POST, GET''])"
proof -
  let ?a = "example_router_app"
  let ?missing = "(example_request ''GET'' ''text/plain'')\<lparr>path := ''/missing''\<rparr>"
  let ?me = "(example_request ''GET'' ''text/plain'')\<lparr>path := ''/users/me''\<rparr>"
  let ?put = "example_request ''PUT'' ''text/plain''"
  let ?ok = "\<lparr>status = 200, description = ''OK'',
              headers = [(''content-type'', [PyStr ''text/html; charset=utf-8''])],
              cookies = [], body = ''me''\<rparr>"
  have comp: "\<forall>p \<in> fst ` set example_registrations.
      re_compile example_libs p = Inr (example_pattern p)"
    by (simp add: example_compile)
  have a: "?a = the_app (lifespan example_libs [''lifespan.startup'']
                  (lifespan_start (register_all example_registrations App_init) []))"
    by (simp add: example_router_app_def)
  have p1: "example_pattern ''/'' ''/users/me'' = None"
    by (simp add: example_pattern_root)
  have p2: "example_pattern ''/users/(?P<id>.+)'' ''/users/me'' = Some [(''id'', PyStr ''me'')]"
    by (rule example_pattern_user_me)
  have p3: "example_pattern ''/users/me'' ''/users/me'' = Some []"
    by (simp add: example_pattern_me)
  have c: "list_all (\<lambda>(k, m). is_compiled k) (routes ?a)"
    using route_dispatch [OF comp a, THEN conjunct1] .
  have none: "\<forall>q \<in> fst ` set example_registrations. example_pattern q (path ?missing) = None"
    by (simp add: example_paths example_pattern_root example_pattern_me
        example_pattern_user_missing)
  have n: "\<exists>r. dispatch example_libs (routes ?a) ?missing (example_world [])
        = (Done r, ?missing, example_world []) \<and> status r = 404"
    using route_dispatch [OF comp a, THEN conjunct2, THEN conjunct1, THEN mp, OF none] .
  have pre: "\<forall>q \<in> fst ` set [(''/'', [''POST''],
                  constant_handler ''create'' (Value (PyStr ''created'')))].
        example_pattern q (path ?me) = None"
    by (simp add: example_pattern_root)
  have hit: "example_pattern ''/users/(?P<id>.+)'' (path ?me) = Some [(''id'', PyStr ''me'')]"
    by (simp add: example_pattern_user_me)
  have h: "registered_handler ''/users/(?P<id>.+)'' (method ?me) example_registrations
      = Some show_user"
    by (simp add: registered_handler_def example_methods_user example_request_def)
  have run: "snd show_user (?me\<lparr>params := [(''id'', PyStr ''me'')]\<rparr>) =
      (Inr (Value (PyStr ''me'')), ?me\<lparr>params := [(''id'', PyStr ''me'')]\<rparr>)"
    by (simp add: show_user_def)
  have f: "from_any example_libs (Value (PyStr ''me'')) = Inr ?ok"
    by (rule from_any_index)
  have m: "dispatch example_libs (routes ?a) ?me (example_world []) =
      (Done ?ok, ?me\<lparr>params := [(''id'', PyStr ''me'')]\<rparr>,
       (example_world [])\<lparr>calls := calls (example_world []) @ [fst show_user]\<rparr>)"
    using route_dispatch [OF comp a, THEN conjunct2, THEN conjunct2, THEN mp,
        OF conjI [OF example_registrations_split conjI [OF pre hit]],
        THEN conjunct2, THEN mp, OF conjI [OF h conjI [OF run f]]] .
  have pre0: "\<forall>q \<in> fst ` set ([] :: (string \<times> string list \<times> handler) list).
        example_pattern q (path ?put) = None"
    by simp
  have hit0: "example_pattern ''/'' (path ?put) = Some []"
    by (simp add: example_pattern_root example_request_def)
  have h0: "registered_handler ''/'' (method ?put) example_registrations = None"
    by (simp add: registered_handler_def example_methods_root example_request_def)
  have "\<exists>r. dispatch example_libs (routes ?a) ?put (example_world [])
        = (Done r, ?put\<lparr>params := []\<rparr>, example_world []) \<and> status r = 405 \<and>
          MultiDict__get (headers r) ''allow'' [] =
            [PyStr (join '', '' (first_seen (map fst (registered_methods ''/'' example_registrations))))]"
    using route_dispatch [OF comp a, THEN conjunct2, THEN conjunct2, THEN mp,
        OF conjI [OF example_registrations_head conjI [OF pre0 hit0]],
        THEN conjunct1, THEN mp, OF h0] .
  then have d: "\<exists>r. dispatch example_libs (routes ?a) ?put (example_world [])
        = (Done r, ?put, example_world []) \<and> status r = 405 \<and>
          MultiDict__get (headers r) ''allow'' [] = [PyStr ''POST, GET'']"
    by (simp add: example_methods_root first_seen_def example_request_def)
  have m': "dispatch example_libs (routes ?a) ?me (example_world []) =
      (Done ?ok,
       (example_request ''GET'' ''text/plain'')
          \<lparr>path := ''/users/me'', params := [(''id'', PyStr ''me'')]\<rparr>,
       \<lparr>inbox = [], outbox = [], calls = [''show_user'']\<rparr>)"
    using m by (simp add: example_world_def show_user_def)
  show ?thesis
    by (intro conjI example_registrations_split p1 p2 p3 c n m' d)
qed

lemma decode_headers_json:
  "decode_headers example_libs [(''Content-Type'', ''application/json'')]
     = Inr [(''content-type'', [PyList [PyStr ''application/json'']])]"
  by (simp add: decode_headers_def is_ascii_def Headers_init_def MultiDict_init_def
        Headers_append_def Headers__setdefault_def MultiDict_setdefault_def dict_setdefault_def
        py_last_def lower_ct example_libs_def)

lemma options_header_json:
  "parse_options_header example_libs (PyStr ''application/json'') = Inr ''application/json''"
  by (simp add: example_libs_def lower_def lower_char_def)

lemma json_loop_empty_event:
  "0 < ijson_buf_size L \<Longrightarrow>
   json_loop L jp (Body_init [\<lparr>ev_body = [], more_body = False\<rparr>]) req =
     (Pending, req, Body_init [\<lparr>ev_body = [], more_body = False\<rparr>])"
  by (subst json_loop.simps) (simp add: Body_read_def Body_init_def)

lemma buf_size_example: "0 < ijson_buf_size example_libs"
  by (simp add: example_libs_def)

lemma parse_request_empty_json:
  "parse_request example_libs a (example_scope m ''/'' ''application/json'')
       ((example_request m ''application/json'')\<lparr>req_headers := []\<rparr>)
       (example_world [\<lparr>ev_body = [], more_body = False\<rparr>]) =
     (Pending, example_request m ''application/json'',
      example_world [\<lparr>ev_body = [], more_body = False\<rparr>])"
  by (simp add: parse_request_def example_scope_def decode_headers_json Headers_get_def
        MultiDict_get_def py_item_last_def
        lower_def lower_char_def py_last_def cookie_load_example options_header_json
        decode_content_def content_decoder_json example_world_def example_request_def
        json_loop_empty_event [OF buf_size_example, unfolded Body_init_def] Body_init_def)

text \<open>
  What the first read of \<^verbatim>\<open>Body\<close> does on a body of one empty event shows in the
  pipeline: a request with content type \<^verbatim>\<open>application/json\<close> and no body is never
  answered.
\<close>

lemma empty_json_body_is_never_answered:
  "http example_libs (example_app v lim) (example_scope ''POST'' ''/'' ''application/json'')
     (example_world [\<lparr>ev_body = [], more_body = False\<rparr>])
   = (Pending, example_world [\<lparr>ev_body = [], more_body = False\<rparr>])"
  by (simp add: http_def http_response_def scope_request_example try_block_def
        parse_request_empty_json and_then_def catch_response_def)

end
